theory Spec2Isabelle
  imports Complex_Main
begin

section \<open>Van monitor firmware (main.py): data model\<close>

text \<open>
  Python floats are modelled as real numbers, without infinity and NaN, and arithmetic
  on them is exact, with one exception. In \<open>calculate_distance_feet\<close> the rounding of
  the machine decides whether \<open>math.sqrt\<close> raises, so the haversine term as the machine
  computes it is an argument of the model there. Exceptions are values: a function that
  can raise returns \<open>exn + 'a\<close>, with \<open>Inl\<close> for the raised exception. Only exceptions
  that are instances of Python's \<open>Exception\<close> class are modelled.
\<close>

datatype exn =
    OSError string
  | ValueError string
  | IndexError string
  | KeyError string
  | UnicodeError string

fun str_exn :: "exn \<Rightarrow> string" where
  "str_exn (OSError m) = m"
| "str_exn (ValueError m) = m"
| "str_exn (IndexError m) = m"
| "str_exn (KeyError m) = m"
| "str_exn (UnicodeError m) = m"

text \<open>The result of a call to an outside collaborator (hardware, network, files).\<close>

datatype 'a outcome = Raises exn | Returns 'a

text \<open>
  The dictionary \<open>gps_data\<close>. The keys \<open>gps_fix_valid\<close> and \<open>satellites\<close> are in
  every dictionary the program builds; the other keys may be missing (\<open>None\<close>).
\<close>

record gps_data =
  gps_fix_valid :: bool
  satellites :: nat
  latitude :: "real option"
  longitude :: "real option"
  speed :: "real option"
  time :: "string option"
  error :: "string option"

text \<open>
  \<open>HOME_LAT\<close> and \<open>HOME_LON\<close> come from \<open>local_secrets\<close>, which is not part of the
  source; they are parameters. \<open>fallback_home\<close> holds the values used when the import
  fails.
\<close>

record home =
  HOME_LAT :: real
  HOME_LON :: real

definition fallback_home :: home where
  "fallback_home = \<lparr>HOME_LAT = 40.7128, HOME_LON = - 74.0060\<rparr>"

definition HOME_RADIUS_FT :: real where
  "HOME_RADIUS_FT = 2000"

section \<open>Geographic distance\<close>

definition radians :: "real \<Rightarrow> real" where
  "radians d = d * pi / 180"

text \<open>\<open>math.sqrt\<close> raises \<open>ValueError\<close> on a negative argument.\<close>

definition math_sqrt :: "real \<Rightarrow> exn + real" where
  "math_sqrt x = (if x < 0 then Inl (ValueError ''math domain error'') else Inr (sqrt x))"

text \<open>\<open>math.atan2 y x\<close>: the angle of the point \<open>(x, y)\<close>, in \<open>(-pi, pi]\<close>.\<close>

definition atan2 :: "real \<Rightarrow> real \<Rightarrow> real" where
  "atan2 y x =
     (if 0 < x then arctan (y / x)
      else if x < 0 \<and> 0 \<le> y then arctan (y / x) + pi
      else if x < 0 \<and> y < 0 then arctan (y / x) - pi
      else if 0 < y then pi / 2
      else if y < 0 then - pi / 2
      else 0)"

text \<open>
  The haversine term \<open>a\<close> of \<open>calculate_distance_feet\<close> (lines 107 to 111), in exact
  arithmetic.
\<close>

definition haversine_a :: "real \<Rightarrow> real \<Rightarrow> real \<Rightarrow> real \<Rightarrow> real" where
  "haversine_a lat1 lon1 lat2 lon2 =
     (let dlat = radians (lat2 - lat1);
          dlon = radians (lon2 - lon1)
      in sin (dlat / 2) * sin (dlat / 2) +
         cos (radians lat1) * cos (radians lat2) *
         sin (dlon / 2) * sin (dlon / 2))"

text \<open>
  The term \<open>a\<close> as the floating-point arithmetic of the machine computes it: an argument
  \<open>hav\<close> of the model. The exact term is never outside \<open>[0, 1]\<close>; the rounded one can be,
  and then a square root of line 112 raises. \<open>haversine_a\<close> is the instance without
  rounding.
\<close>

type_synonym haversine_term = "real \<Rightarrow> real \<Rightarrow> real \<Rightarrow> real \<Rightarrow> real"

definition calculate_distance_feet ::
  "haversine_term \<Rightarrow> real \<Rightarrow> real \<Rightarrow> real \<Rightarrow> real \<Rightarrow> exn + real" where
  "calculate_distance_feet hav lat1 lon1 lat2 lon2 =
     (let R = 3959;
          a = hav lat1 lon1 lat2 lon2
      in case math_sqrt a of
           Inl e \<Rightarrow> Inl e
         | Inr sa \<Rightarrow>
             (case math_sqrt (1 - a) of
                Inl e \<Rightarrow> Inl e
              | Inr sb \<Rightarrow>
                  (let c = 2 * atan2 sa sb;
                       distance_miles = R * c
                   in Inr (distance_miles * 5280))))"

text \<open>
  The term in IEEE double arithmetic at the position (-30.3333, 17.4113) and its
  antipode (30.3333, -162.5887), in either order: 1.0000000000000002, which is
  \<open>1 + 2^-52\<close>. At every other argument \<open>hav_double\<close> is the exact term.
\<close>

definition hav_double :: haversine_term where
  "hav_double lat1 lon1 lat2 lon2 =
     (if (lat1 = - 30.3333 \<and> lon1 = 17.4113 \<and> lat2 = 30.3333 \<and> lon2 = - 162.5887)
         \<or> (lat1 = 30.3333 \<and> lon1 = - 162.5887 \<and> lat2 = - 30.3333 \<and> lon2 = 17.4113)
      then 1 + 1 / 2 ^ 52
      else haversine_a lat1 lon1 lat2 lon2)"

text \<open>
  Python truthiness of \<open>gps_data.get(key)\<close> for a float-valued key: a missing key gives
  \<open>None\<close>, which is false, and so is the float \<open>0.0\<close>.
\<close>

fun truthy_float :: "real option \<Rightarrow> bool" where
  "truthy_float None = False"
| "truthy_float (Some x) = (x \<noteq> 0)"

text \<open>
  \<open>is_close_to_home\<close>, with the distance function it calls as an argument, so that a
  theorem can say that a result does not depend on the distance computation.
  \<open>gps_data["latitude"]\<close> raises \<open>KeyError\<close> on a missing key.
\<close>

definition is_close_to_home_with ::
  "(real \<Rightarrow> real \<Rightarrow> real \<Rightarrow> real \<Rightarrow> exn + real) \<Rightarrow> home \<Rightarrow> gps_data \<Rightarrow> exn + bool" where
  "is_close_to_home_with distance_fn h g =
     (if \<not> gps_fix_valid g \<or> \<not> truthy_float (latitude g) \<or> \<not> truthy_float (longitude g)
      then Inr False
      else case latitude g of
             None \<Rightarrow> Inl (KeyError ''latitude'')
           | Some lat \<Rightarrow>
               (case longitude g of
                  None \<Rightarrow> Inl (KeyError ''longitude'')
                | Some lon \<Rightarrow>
                    (case distance_fn lat lon (HOME_LAT h) (HOME_LON h) of
                       Inl e \<Rightarrow> Inl e
                     | Inr distance_ft \<Rightarrow> Inr (distance_ft \<le> HOME_RADIUS_FT))))"

definition is_close_to_home :: "haversine_term \<Rightarrow> home \<Rightarrow> gps_data \<Rightarrow> exn + bool" where
  "is_close_to_home hav = is_close_to_home_with (calculate_distance_feet hav)"

section \<open>Strings\<close>

definition bind_exn :: "exn + 'a \<Rightarrow> ('a \<Rightarrow> exn + 'b) \<Rightarrow> exn + 'b" where
  "bind_exn m f = (case m of Inl e \<Rightarrow> Inl e | Inr x \<Rightarrow> f x)"

definition startswith :: "string \<Rightarrow> string \<Rightarrow> bool" where
  "startswith s p = (take (length p) s = p)"

text \<open>The characters \<open>str.strip()\<close> removes: space, tab, newline, return, VT, FF.\<close>

definition is_space :: "char \<Rightarrow> bool" where
  "is_space c = (c = CHR '' '' \<or> c = CHR 0x09 \<or> c = CHR 0x0A \<or> c = CHR 0x0D
                 \<or> c = CHR 0x0B \<or> c = CHR 0x0C)"

definition strip :: "string \<Rightarrow> string" where
  "strip s = rev (dropWhile is_space (rev (dropWhile is_space s)))"

text \<open>\<open>s.split(c)\<close> for a one-character separator: never an empty list.\<close>

fun split_on :: "char \<Rightarrow> string \<Rightarrow> string list" where
  "split_on c [] = [[]]"
| "split_on c (x # xs) =
     (if x = c then [] # split_on c xs
      else case split_on c xs of
             [] \<Rightarrow> [[x]]
           | p # ps \<Rightarrow> (x # p) # ps)"

definition is_digit_char :: "char \<Rightarrow> bool" where
  "is_digit_char c = (48 \<le> (of_char c :: nat) \<and> (of_char c :: nat) \<le> 57)"

definition digit_val :: "char \<Rightarrow> nat" where
  "digit_val c = of_char c - 48"

text \<open>\<open>str.isdigit()\<close> on an ASCII string: not empty and only digits.\<close>

definition isdigit :: "string \<Rightarrow> bool" where
  "isdigit s = (s \<noteq> [] \<and> list_all is_digit_char s)"

text \<open>\<open>int(s)\<close> on a string of digits.\<close>

definition int_of_digits :: "string \<Rightarrow> nat" where
  "int_of_digits s = foldl (\<lambda>acc c. 10 * acc + digit_val c) 0 s"

text \<open>\<open>bytes.decode('ascii')\<close>: a byte above 127 raises.\<close>

definition decode_ascii :: "string \<Rightarrow> exn + string" where
  "decode_ascii b =
     (if list_all (\<lambda>c. (of_char c :: nat) < 128) b then Inr b
      else Inl (UnicodeError ''ordinal not in range(128)''))"

text \<open>\<open>needle in hay\<close> for strings.\<close>

fun contains :: "string \<Rightarrow> string \<Rightarrow> bool" where
  "contains needle [] = (needle = [])"
| "contains needle (c # cs) = (startswith (c # cs) needle \<or> contains needle cs)"

text \<open>
  The builtin \<open>float(s)\<close> is an argument \<open>flt\<close> of the decoder: \<open>None\<close> stands for
  \<open>ValueError\<close>. \<open>decimal_float\<close> is \<open>float\<close> on the plain decimal numerals that NMEA
  fields hold (an optional sign, digits, an optional fraction), with the exact value of
  the numeral; it is used to run the decoder on concrete sentences. On every other
  string (an exponent, \<open>inf\<close>, \<open>nan\<close>) it gives \<open>None\<close>; the theorems about every input
  are about every \<open>flt\<close>.
\<close>

definition float_call :: "(string \<Rightarrow> real option) \<Rightarrow> string \<Rightarrow> exn + real" where
  "float_call flt s =
     (case flt s of
        None \<Rightarrow> Inl (ValueError ''invalid syntax for number'')
      | Some x \<Rightarrow> Inr x)"

definition decimal_float :: "string \<Rightarrow> real option" where
  "decimal_float s =
     (let t = strip s;
          neg = startswith t ''-'' \<and> t \<noteq> [];
          u = (if t \<noteq> [] \<and> (hd t = CHR ''-'' \<or> hd t = CHR ''+'') then tl t else t);
          ip = takeWhile is_digit_char u;
          rest = dropWhile is_digit_char u;
          sg = (if neg then - 1 else 1)
      in case rest of
           [] \<Rightarrow> if ip = [] then None else Some (sg * real (int_of_digits ip))
         | c # fp \<Rightarrow>
             if c = CHR ''.'' \<and> list_all is_digit_char fp \<and> (ip \<noteq> [] \<or> fp \<noteq> [])
             then Some (sg * (real (int_of_digits ip) + real (int_of_digits fp) / 10 ^ length fp))
             else None)"

section \<open>Monotonic time\<close>

text \<open>
  Modelled from the spec: \<open>time.ticks_diff\<close> is a function of the MicroPython runtime,
  not of the source. The spec has it as the difference "interpreted as a signed value
  over the counter's modulus"; the runtime's definition is the same,
  \<open>((a - b + P/2) mod P) - P/2\<close> for the period \<open>P\<close> of the counter, which is \<open>2^30\<close>
  on this platform. \<open>ticks_wrap\<close> is the counter's wrap-around at its period.
\<close>

definition ticks_diff_mod :: "int \<Rightarrow> int \<Rightarrow> int \<Rightarrow> int" where
  "ticks_diff_mod P a b = (a - b + P div 2) mod P - P div 2"

definition ticks_wrap :: "int \<Rightarrow> int \<Rightarrow> int" where
  "ticks_wrap P t = t mod P"

definition TICKS_PERIOD :: int where
  "TICKS_PERIOD = 2 ^ 30"

definition ticks_diff :: "int \<Rightarrow> int \<Rightarrow> int" where
  "ticks_diff a b = ticks_diff_mod TICKS_PERIOD a b"

definition WIFI_RETRY_INTERVAL :: int where "WIFI_RETRY_INTERVAL = 30000"
definition SHUTDOWN_DELAY :: int where "SHUTDOWN_DELAY = 30000"
definition LOG_INTERVAL :: int where "LOG_INTERVAL = 60000"
definition CLEANUP_INTERVAL :: int where "CLEANUP_INTERVAL = 86400000"
definition SENSOR_UPDATE_INTERVAL :: int where "SENSOR_UPDATE_INTERVAL = 5000"
definition DEEP_SLEEP_INTERVAL :: nat where "DEEP_SLEEP_INTERVAL = 10000"
definition SD_MOUNT_PATH :: string where "SD_MOUNT_PATH = ''/sd''"

section \<open>GPS: \<open>read_gps\<close>\<close>

text \<open>The local variables of \<open>read_gps\<close> that live across loop iterations.\<close>

record rg_state =
  rg_gps_data :: gps_data
  lines_processed :: nat
  gprmc_found :: bool
  gpgga_found :: bool

definition gps_data_init :: gps_data where
  "gps_data_init = \<lparr>gps_fix_valid = False, satellites = 0, latitude = None,
     longitude = None, speed = None, time = None, error = None\<rparr>"

text \<open>Lines 315 and 316: knots to km/h, and the cut at 1.0 km/h.\<close>

definition rmc_speed :: "real \<Rightarrow> real" where
  "rmc_speed speed_knots =
     (let speed_kmh = speed_knots * 1.852
      in if speed_kmh > 1.0 then speed_kmh else 0.0)"

text \<open>
  The body of the \<open>try\<close> of lines 300 to 330, for the fields of an RMC sentence whose
  status is \<open>A\<close>: the updated state, or the \<open>ValueError\<close> of a \<open>float\<close> call.
\<close>

definition rmc_try ::
  "(string \<Rightarrow> real option) \<Rightarrow> string \<Rightarrow> string \<Rightarrow> string \<Rightarrow> string \<Rightarrow> string \<Rightarrow> string
     \<Rightarrow> rg_state \<Rightarrow> exn + rg_state" where
  "rmc_try flt time_str lat_str lat_dir lon_str lon_dir speed_str st =
     (if length lat_str \<ge> 4 \<and> length lon_str \<ge> 5 then
        bind_exn (float_call flt (take 2 lat_str)) (\<lambda>lat_deg.
        bind_exn (float_call flt (drop 2 lat_str)) (\<lambda>lat_min.
        let lat0 = lat_deg + lat_min / 60.0;
            lat = (if lat_dir = ''S'' then - lat0 else lat0)
        in
        bind_exn (float_call flt (take 3 lon_str)) (\<lambda>lon_deg.
        bind_exn (float_call flt (drop 3 lon_str)) (\<lambda>lon_min.
        let lon0 = lon_deg + lon_min / 60.0;
            lon = (if lon_dir = ''W'' then - lon0 else lon0)
        in
        bind_exn (if speed_str \<noteq> []
                  then bind_exn (float_call flt speed_str) (\<lambda>speed_knots.
                         Inr (rmc_speed speed_knots))
                  else Inr 0.0) (\<lambda>spd.
        let time_formatted =
              (if time_str \<noteq> [] \<and> length time_str \<ge> 6
               then take 2 time_str @ '':'' @ take 2 (drop 2 time_str) @ '':'' @
                    take 2 (drop 4 time_str)
               else ''??:??:??'')
        in Inr (st\<lparr>rg_gps_data := (rg_gps_data st)\<lparr>gps_fix_valid := True,
                      latitude := Some lat, longitude := Some lon, speed := Some spd,
                      time := Some time_formatted\<rparr>,
                    gprmc_found := True\<rparr>))))))
      else Inr st)"

text \<open>Lines 289 to 332: an RMC sentence.\<close>

definition rmc_line :: "(string \<Rightarrow> real option) \<Rightarrow> string \<Rightarrow> rg_state \<Rightarrow> exn + rg_state" where
  "rmc_line flt line_str st =
     (let parts = split_on CHR '','' line_str
      in if length parts \<ge> 13 then
           (let time_str = parts ! 1; status = parts ! 2; lat_str = parts ! 3;
                lat_dir = parts ! 4; lon_str = parts ! 5; lon_dir = parts ! 6;
                speed_str = parts ! 7
            in if status = ''A'' \<and> lat_str \<noteq> [] \<and> lon_str \<noteq> []
               then rmc_try flt time_str lat_str lat_dir lon_str lon_dir speed_str st
               else Inr st)
         else Inr st)"

text \<open>Lines 336 to 345: a GGA sentence. Nothing in it can raise.\<close>

definition gga_line :: "string \<Rightarrow> rg_state \<Rightarrow> rg_state" where
  "gga_line line_str st =
     (let parts = split_on CHR '','' line_str
      in if length parts \<ge> 8 then
           (let sats = (if length parts > 7 then parts ! 7 else [])
            in if sats \<noteq> [] \<and> isdigit sats
               then st\<lparr>rg_gps_data := (rg_gps_data st)\<lparr>satellites := int_of_digits sats\<rparr>,
                       gpgga_found := True\<rparr>
               else st)
         else st)"

text \<open>
  One line that \<open>readline\<close> has returned (the \<open>try\<close> of lines 281 to 349): the state
  reached, and either the exception raised on the way or whether \<open>read_gps\<close> returns
  now. \<open>decode\<close> can raise before anything is changed, \<open>float\<close> after the line has been
  counted.
\<close>

definition handle_line_try ::
  "(string \<Rightarrow> real option) \<Rightarrow> string \<Rightarrow> rg_state \<Rightarrow> rg_state \<times> (exn + bool)" where
  "handle_line_try flt line st =
     (case decode_ascii line of
        Inl e \<Rightarrow> (st, Inl e)
      | Inr decoded \<Rightarrow>
          (let line_str = strip decoded
           in if startswith line_str ''$'' then
                (let st1 = st\<lparr>lines_processed := lines_processed st + 1\<rparr>
                 in if startswith line_str ''$GPRMC'' \<or> startswith line_str ''$GNRMC'' then
                      (case rmc_line flt line_str st1 of
                         Inl e \<Rightarrow> (st1, Inl e)
                       | Inr st2 \<Rightarrow> (st2, Inr (gprmc_found st2 \<and> gpgga_found st2)))
                    else if startswith line_str ''$GPGGA'' \<or> startswith line_str ''$GNGGA'' then
                      (let st2 = gga_line line_str st1
                       in (st2, Inr (gprmc_found st2 \<and> gpgga_found st2)))
                    else (st1, Inr (gprmc_found st1 \<and> gpgga_found st1)))
              else (st, Inr False)))"

text \<open>
  The handlers: \<open>except (ValueError, IndexError): continue\<close> and the bare
  \<open>except: continue\<close> (lines 331 and 351). Every exception ends in \<open>continue\<close>.
\<close>

definition handle_line :: "(string \<Rightarrow> real option) \<Rightarrow> string \<Rightarrow> rg_state \<Rightarrow> rg_state \<times> bool" where
  "handle_line flt line st =
     (case handle_line_try flt line st of
        (st', Inl e) \<Rightarrow> (st', False)
      | (st', Inr return_now) \<Rightarrow> (st', return_now))"

text \<open>
  The \<open>while\<close> loop of \<open>read_gps\<close>. Each element of the script is one iteration: the value
  \<open>time.ticks_ms()\<close> returns for the loop test, and what \<open>gps_uart.readline()\<close> does then.
  A script that ends stands for a clock that has passed the timeout. An empty line is
  false in \<open>if line:\<close>, as \<open>None\<close> is.
\<close>

fun read_gps_loop ::
  "(string \<Rightarrow> real option) \<Rightarrow> int \<Rightarrow> int \<Rightarrow> (int \<times> string option outcome) list
     \<Rightarrow> rg_state \<Rightarrow> exn + gps_data" where
  "read_gps_loop flt start_time timeout [] st = Inr (rg_gps_data st)"
| "read_gps_loop flt start_time timeout ((ticks, r) # script) st =
     (if ticks_diff ticks start_time < timeout then
        (case r of
           Raises e \<Rightarrow> Inl e
         | Returns None \<Rightarrow> read_gps_loop flt start_time timeout script st
         | Returns (Some line) \<Rightarrow>
             if line \<noteq> [] then
               (case handle_line flt line st of
                  (st', True) \<Rightarrow> Inr (rg_gps_data st')
                | (st', False) \<Rightarrow> read_gps_loop flt start_time timeout script st')
             else read_gps_loop flt start_time timeout script st)
      else Inr (rg_gps_data st))"

definition read_gps_try ::
  "(string \<Rightarrow> real option) \<Rightarrow> int \<Rightarrow> int \<Rightarrow> (int \<times> string option outcome) list \<Rightarrow> exn + gps_data" where
  "read_gps_try flt timeout start_time script =
     read_gps_loop flt start_time timeout script
       \<lparr>rg_gps_data = gps_data_init, lines_processed = 0, gprmc_found = False,
        gpgga_found = False\<rparr>"

text \<open>\<open>read_gps\<close>: the \<open>try\<close> with its \<open>except Exception\<close> (lines 364 to 366).\<close>

definition read_gps ::
  "(string \<Rightarrow> real option) \<Rightarrow> int \<Rightarrow> int \<Rightarrow> (int \<times> string option outcome) list \<Rightarrow> exn + gps_data" where
  "read_gps flt timeout start_time script =
     (case read_gps_try flt timeout start_time script of
        Inl e \<Rightarrow> Inr (gps_data_init\<lparr>error := Some (str_exn e)\<rparr>)
      | Inr g \<Rightarrow> Inr g)"

section \<open>Program state and collaborators\<close>

text \<open>What \<open>read_battery_status\<close> returns when the read succeeds.\<close>

record battery_status =
  percentage :: int
  voltage :: real
  charging_state :: string

text \<open>The dictionary \<open>sensor_data\<close> and the other module-level variables.\<close>

record sensor_data =
  engine :: bool
  battery :: "battery_status option"
  wifi :: bool
  gps :: gps_data
  last_update :: int

record globals =
  sensor :: sensor_data
  last_wifi_attempt :: int
  engine_off_time :: "int option"
  is_shutting_down :: bool
  last_log_time :: int
  last_cleanup_time :: int

definition globals_init :: globals where
  "globals_init =
     \<lparr>sensor = \<lparr>engine = False, battery = None, wifi = False, gps = gps_data_init,
                 last_update = 0\<rparr>,
      last_wifi_attempt = 0, engine_off_time = None, is_shutting_down = False,
      last_log_time = 0, last_cleanup_time = 0\<rparr>"

text \<open>
  What the program does to the outside, in order: the calls on the display of the
  shutdown path and of the start screen, the delays and the deep sleep, and the file
  operations of logging. \<open>print\<close> is left out, and so are the display calls of
  \<open>init_display\<close> and \<open>update_display\<close>.
\<close>

datatype event =
    Lcd_clear nat
  | Lcd_setTextColor nat nat
  | Lcd_setCursor nat nat
  | Lcd_print string
  | Sleep_ms nat
  | Deepsleep nat
  | Open_read string
  | Open_write string
  | Cleanup_scan

text \<open>
  The station interface of \<open>network\<close>: what each call does. \<open>isconnected n\<close> is the
  \<open>n\<close>-th call of \<open>sta.isconnected()\<close> within one \<open>check_wifi\<close>.
\<close>

record wlan =
  WLAN_new :: "unit outcome"
  set_active :: "unit outcome"
  isconnected :: "nat \<Rightarrow> bool outcome"
  connect :: "unit outcome"

text \<open>
  The socket of \<open>upload_files_ftp\<close>. \<open>recv n\<close> is the \<open>n\<close>-th
  \<open>sock.recv(1024).decode()\<close>: the decoded reply, or the exception of either call.
\<close>

record ftp =
  socket_new :: "unit outcome"
  sock_connect :: "unit outcome"
  recv :: "nat \<Rightarrow> string outcome"
  send :: "nat \<Rightarrow> unit outcome"
  listdir :: "string list outcome"
  sock_close :: "unit outcome"

definition call :: "'a outcome \<Rightarrow> exn + 'a" where
  "call r = (case r of Raises e \<Rightarrow> Inl e | Returns x \<Rightarrow> Inr x)"

section \<open>Network: \<open>check_wifi\<close> and \<open>upload_files_ftp\<close>\<close>

text \<open>
  The \<open>while timeout > 0\<close> loop; \<open>k\<close> counts the calls of \<open>isconnected\<close>. The result is
  the delays made, and what ended the loop.
\<close>

fun wifi_wait :: "wlan \<Rightarrow> nat \<Rightarrow> nat \<Rightarrow> event list \<times> (exn + bool)" where
  "wifi_wait w 0 k = ([], Inr False)"
| "wifi_wait w (Suc timeout) k =
     (case isconnected w k of
        Raises e \<Rightarrow> ([], Inl e)
      | Returns c \<Rightarrow>
          if c then ([], Inr True)
          else (case wifi_wait w timeout (Suc k) of (tr, r) \<Rightarrow> (Sleep_ms 1000 # tr, r)))"

definition check_wifi_try :: "wlan \<Rightarrow> event list \<times> (exn + bool)" where
  "check_wifi_try w =
     (case WLAN_new w of
        Raises e \<Rightarrow> ([], Inl e)
      | Returns _ \<Rightarrow>
          (case set_active w of
             Raises e \<Rightarrow> ([], Inl e)
           | Returns _ \<Rightarrow>
               (case isconnected w 0 of
                  Raises e \<Rightarrow> ([], Inl e)
                | Returns c \<Rightarrow>
                    if c then ([], Inr True)
                    else (case connect w of
                            Raises e \<Rightarrow> ([], Inl e)
                          | Returns _ \<Rightarrow> wifi_wait w 10 1))))"

text \<open>\<open>check_wifi\<close>: the bare \<open>except: pass\<close>, then \<open>return False\<close>.\<close>

definition check_wifi :: "wlan \<Rightarrow> exn + (bool \<times> event list)" where
  "check_wifi w =
     (case check_wifi_try w of
        (tr, Inl e) \<Rightarrow> Inr (False, tr)
      | (tr, Inr c) \<Rightarrow> Inr (c, tr))"

text \<open>
  The \<open>try\<close> of \<open>upload_files_ftp\<close>. The listing of the files only prints, inside a
  \<open>try\<close> of its own, so its outcome changes nothing.
\<close>

definition upload_files_ftp_try :: "ftp \<Rightarrow> exn + bool" where
  "upload_files_ftp_try f =
     bind_exn (call (socket_new f)) (\<lambda>_.
     bind_exn (call (sock_connect f)) (\<lambda>_.
     bind_exn (call (recv f 0)) (\<lambda>_.
     bind_exn (call (send f 0)) (\<lambda>_.
     bind_exn (call (recv f 1)) (\<lambda>_.
     bind_exn (call (send f 1)) (\<lambda>_.
     bind_exn (call (recv f 2)) (\<lambda>response.
     bind_exn (if contains ''230'' response
               then bind_exn (call (send f 2)) (\<lambda>_.
                    bind_exn (call (recv f 3)) (\<lambda>_.
                      case listdir f of Raises e \<Rightarrow> Inr () | Returns files \<Rightarrow> Inr ()))
               else Inr ()) (\<lambda>_.
     bind_exn (call (sock_close f)) (\<lambda>_. Inr True)))))))))"

definition upload_files_ftp :: "ftp \<Rightarrow> exn + bool" where
  "upload_files_ftp f =
     (case upload_files_ftp_try f of Inl e \<Rightarrow> Inr False | Inr ok \<Rightarrow> Inr ok)"

section \<open>Power management\<close>

text \<open>\<open>machine.deepsleep\<close> resets the device: it is the last event of a run.\<close>

definition enter_deep_sleep :: "event list" where
  "enter_deep_sleep =
     [Lcd_clear 0, Lcd_setTextColor 0xFFFF 0,
      Lcd_setCursor 80 100, Lcd_print ''DEEP SLEEP'',
      Lcd_setCursor 60 120, Lcd_print ''ENGINE OFF'',
      Sleep_ms 1000, Deepsleep DEEP_SLEEP_INTERVAL]"

text \<open>
  \<open>handle_shutdown_sequence\<close>. The proximity test of line 624 is outside every \<open>try\<close>:
  an exception of the distance computation leaves the function.
\<close>

definition handle_shutdown_sequence ::
  "haversine_term \<Rightarrow> home \<Rightarrow> wlan \<Rightarrow> ftp \<Rightarrow> globals \<Rightarrow> exn + (globals \<times> event list)" where
  "handle_shutdown_sequence hav h w f st =
     (let st1 = st\<lparr>is_shutting_down := True\<rparr>;
          tr0 = [Lcd_clear 0, Lcd_setTextColor 0xFFE0 0,
                 Lcd_setCursor 70 80, Lcd_print ''SHUTTING DOWN'',
                 Lcd_setCursor 60 100, Lcd_print ''Checking WiFi...'']
      in
      bind_exn (if gps_fix_valid (gps (sensor st1))
                then is_close_to_home hav h (gps (sensor st1)) else Inr False) (\<lambda>close.
      bind_exn
        (if close then
           bind_exn (check_wifi w) (\<lambda>(connected, wifi_tr).
             if connected then
               bind_exn (upload_files_ftp f) (\<lambda>upload_success.
                 Inr ([Lcd_setCursor 50 120, Lcd_print ''Uploading data...''] @ wifi_tr @
                      [Lcd_setCursor 60 140,
                       Lcd_print (if upload_success then ''Upload complete''
                                  else ''Upload failed''),
                       Sleep_ms 2000]))
             else
               Inr ([Lcd_setCursor 50 120, Lcd_print ''Uploading data...''] @ wifi_tr @
                    [Lcd_setCursor 60 140, Lcd_print ''No WiFi'', Sleep_ms 1000]))
         else
           Inr [Lcd_setCursor 60 120, Lcd_print ''Away from home'', Sleep_ms 1000]) (\<lambda>tr1.
      Inr (st1, tr0 @ tr1 @ enter_deep_sleep))))"

text \<open>The proximity test of line 624 returns: it does not raise.\<close>

definition proximity_returns :: "haversine_term \<Rightarrow> home \<Rightarrow> globals \<Rightarrow> bool" where
  "proximity_returns hav h st =
     (case (if gps_fix_valid (gps (sensor st))
            then is_close_to_home hav h (gps (sensor st)) else Inr False) of
        Inl e \<Rightarrow> False
      | Inr close \<Rightarrow> True)"

section \<open>Logging\<close>

definition digit_char :: "nat \<Rightarrow> char" where
  "digit_char d = ''0123456789'' ! d"

fun str_nat :: "nat \<Rightarrow> string" where
  "str_nat n = (if n < 10 then [digit_char n] else str_nat (n div 10) @ [digit_char (n mod 10)])"

declare str_nat.simps [simp del]

text \<open>The format \<open>{:0wd}\<close> for a number that is not negative.\<close>

definition zero_pad :: "nat \<Rightarrow> nat \<Rightarrow> string" where
  "zero_pad w n = replicate (w - length (str_nat n)) CHR ''0'' @ str_nat n"

text \<open>\<open>get_date_string\<close>, from the year, month and day of \<open>time.localtime\<close>.\<close>

definition get_date_string :: "nat \<times> nat \<times> nat \<Rightarrow> string" where
  "get_date_string t =
     (case t of (y, m, d) \<Rightarrow> zero_pad 4 y @ ''-'' @ zero_pad 2 m @ ''-'' @ zero_pad 2 d)"

record log_entry =
  le_timestamp :: int
  le_date :: string
  le_engine :: bool
  le_battery :: "battery_status option"
  le_wifi :: bool
  le_gps :: gps_data
  le_close_to_home :: bool

text \<open>
  The files of the SD card. \<open>load name\<close> is \<open>open(name, 'r')\<close> with \<open>ujson.load\<close>,
  \<open>dump name logs\<close> is \<open>open(name, 'w')\<close> with \<open>ujson.dump\<close>; each raises when the file or
  the card is not there. \<open>cleanup\<close> is the \<open>try\<close> of \<open>cleanup_old_logs\<close> up to its last
  assignment, the listing of the card and the deletion of the old logs: it completes or
  raises.
\<close>

record files =
  load :: "string \<Rightarrow> log_entry list outcome"
  dump :: "string \<Rightarrow> log_entry list \<Rightarrow> unit outcome"
  cleanup :: "unit outcome"

text \<open>
  \<open>cleanup_old_logs\<close> after its time test (lines 453 to 486): \<open>last_cleanup_time\<close> moves
  only when the \<open>try\<close> completes.
\<close>

definition cleanup_old_logs_run :: "files \<Rightarrow> int \<Rightarrow> globals \<Rightarrow> globals \<times> event list" where
  "cleanup_old_logs_run fs current_time st =
     (case cleanup fs of
        Raises e \<Rightarrow> (st, [Cleanup_scan])
      | Returns _ \<Rightarrow> (st\<lparr>last_cleanup_time := current_time\<rparr>, [Cleanup_scan]))"

text \<open>\<open>cleanup_old_logs\<close>: \<open>current_time\<close> is the value of \<open>time.ticks_ms()\<close> at line 449.\<close>

definition cleanup_old_logs :: "files \<Rightarrow> int \<Rightarrow> globals \<Rightarrow> globals \<times> event list" where
  "cleanup_old_logs fs current_time st =
     (if ticks_diff current_time (last_cleanup_time st) < CLEANUP_INTERVAL then (st, [])
      else cleanup_old_logs_run fs current_time st)"

text \<open>
  The \<open>try\<close> of \<open>log_sensor_data\<close> up to the write (lines 497 to 528): the events up to
  an exception, and whether the entry was written.
\<close>

definition log_sensor_data_try ::
  "haversine_term \<Rightarrow> home \<Rightarrow> files \<Rightarrow> int \<Rightarrow> nat \<times> nat \<times> nat \<Rightarrow> globals
     \<Rightarrow> event list \<times> (exn + unit)" where
  "log_sensor_data_try hav h fs timestamp local_date st =
     (let date_str = get_date_string local_date
      in case (if gps_fix_valid (gps (sensor st))
               then is_close_to_home hav h (gps (sensor st)) else Inr False) of
           Inl e \<Rightarrow> ([], Inl e)
         | Inr close \<Rightarrow>
             (let log_entry = \<lparr>le_timestamp = timestamp, le_date = date_str,
                    le_engine = engine (sensor st), le_battery = battery (sensor st),
                    le_wifi = wifi (sensor st), le_gps = gps (sensor st),
                    le_close_to_home = close\<rparr>;
                  log_filename = SD_MOUNT_PATH @ ''/van_log_'' @ date_str @ ''.json'';
                  logs = (case load fs log_filename of Raises e \<Rightarrow> [] | Returns l \<Rightarrow> l)
              in case dump fs log_filename (logs @ [log_entry]) of
                   Raises e \<Rightarrow> ([Open_read log_filename, Open_write log_filename], Inl e)
                 | Returns _ \<Rightarrow> ([Open_read log_filename, Open_write log_filename], Inr ())))"

text \<open>
  \<open>log_sensor_data\<close> after its time test: \<open>last_log_time\<close> moves only when the entry was
  written, and then \<open>cleanup_old_logs\<close> is called, which reads the clock again
  (\<open>cleanup_time\<close>).
\<close>

definition log_sensor_data_run ::
  "haversine_term \<Rightarrow> home \<Rightarrow> files \<Rightarrow> int \<Rightarrow> int \<Rightarrow> nat \<times> nat \<times> nat \<Rightarrow> int \<Rightarrow> globals
     \<Rightarrow> globals \<times> event list" where
  "log_sensor_data_run hav h fs current_time timestamp local_date cleanup_time st =
     (case log_sensor_data_try hav h fs timestamp local_date st of
        (tr, Inl e) \<Rightarrow> (st, tr)
      | (tr, Inr _) \<Rightarrow>
          (case cleanup_old_logs fs cleanup_time (st\<lparr>last_log_time := current_time\<rparr>) of
             (st', tr') \<Rightarrow> (st', tr @ tr')))"

text \<open>\<open>log_sensor_data\<close>: \<open>current_time\<close> is the value of \<open>time.ticks_ms()\<close> at line 492.\<close>

definition log_sensor_data ::
  "haversine_term \<Rightarrow> home \<Rightarrow> files \<Rightarrow> int \<Rightarrow> int \<Rightarrow> nat \<times> nat \<times> nat \<Rightarrow> int \<Rightarrow> globals
     \<Rightarrow> globals \<times> event list" where
  "log_sensor_data hav h fs current_time timestamp local_date cleanup_time st =
     (if ticks_diff current_time (last_log_time st) < LOG_INTERVAL then (st, [])
      else log_sensor_data_run hav h fs current_time timestamp local_date cleanup_time st)"

section \<open>The sensor update\<close>

text \<open>Everything one call of \<open>update_sensors\<close> reads from outside.\<close>

record tick =
  ticks_ms :: int
  pmu_status :: "nat outcome"
  battery_read :: "battery_status option"
  gps_start :: int
  gps_script :: "(int \<times> string option outcome) list"
  sta :: wlan
  sta_is_active :: "bool outcome"
  sock :: ftp
  sd_files :: files
  log_ticks_ms :: int
  cleanup_ticks_ms :: int
  wall_time :: int
  local_date :: "nat \<times> nat \<times> nat"

text \<open>\<open>engine_is_on\<close>: bit 5 of the status register; any exception gives \<open>False\<close>.\<close>

definition engine_is_on :: "nat outcome \<Rightarrow> bool" where
  "engine_is_on r = (case r of Raises e \<Rightarrow> False | Returns status \<Rightarrow> bit status 5)"

text \<open>Python truthiness of \<open>engine_off_time\<close>: \<open>None\<close> is false, and so is \<open>0\<close>.\<close>

fun truthy_int :: "int option \<Rightarrow> bool" where
  "truthy_int None = False"
| "truthy_int (Some t) = (t \<noteq> 0)"

text \<open>
  Lines 706 to 717, the tracking of the engine-off time: \<open>None\<close> when the shutdown
  sequence is triggered, otherwise the new value of \<open>engine_off_time\<close>.
  \<open>prev_engine_state\<close> is the engine flag before this sample, \<open>engine_now\<close> the sample.
\<close>

definition track_engine_off :: "int \<Rightarrow> bool \<Rightarrow> bool \<Rightarrow> int option \<Rightarrow> int option option" where
  "track_engine_off current_time prev_engine_state engine_now off_time =
     (if engine_now then Some None
      else if prev_engine_state \<and> \<not> engine_now then Some (Some current_time)
      else if truthy_int off_time \<and>
              ticks_diff current_time (case off_time of Some t \<Rightarrow> t | None \<Rightarrow> 0) > SHUTDOWN_DELAY
           then None
      else Some off_time)"

datatype tick_result =
    Skipped globals
  | Updated globals "event list"
  | Shut_down globals "event list"

text \<open>Lines 750 to 755: a connection attempt, with its delays.\<close>

definition wifi_retry :: "tick \<Rightarrow> globals \<Rightarrow> exn + (globals \<times> event list)" where
  "wifi_retry tk st =
     bind_exn (check_wifi (sta tk)) (\<lambda>(c, tr).
       Inr (st\<lparr>last_wifi_attempt := ticks_ms tk, sensor := (sensor st)\<lparr>wifi := c\<rparr>\<rparr>, tr))"

text \<open>Lines 758 and 759: the check whether the station is connected already.\<close>

definition wifi_quick_check :: "tick \<Rightarrow> globals \<Rightarrow> exn + (globals \<times> event list)" where
  "wifi_quick_check tk st =
     bind_exn (call (WLAN_new (sta tk))) (\<lambda>_.
     bind_exn (call (sta_is_active tk)) (\<lambda>active.
     bind_exn (if active then call (isconnected (sta tk) 0) else Inr False) (\<lambda>c.
       Inr (st\<lparr>sensor := (sensor st)\<lparr>wifi := c\<rparr>\<rparr>, []))))"

text \<open>Lines 749 to 759.\<close>

definition update_wifi :: "bool \<Rightarrow> tick \<Rightarrow> globals \<Rightarrow> exn + (globals \<times> event list)" where
  "update_wifi close_to_home tk st =
     (if close_to_home \<and>
         ticks_diff (ticks_ms tk) (last_wifi_attempt st) > WIFI_RETRY_INTERVAL
      then wifi_retry tk st
      else wifi_quick_check tk st)"

text \<open>
  Lines 719 to 766: the rest of \<open>update_sensors\<close> when no shutdown is triggered. The
  proximity test and the distance of lines 737 to 742 are outside every \<open>try\<close>.
\<close>

definition update_rest ::
  "(string \<Rightarrow> real option) \<Rightarrow> haversine_term \<Rightarrow> home \<Rightarrow> tick \<Rightarrow> globals \<Rightarrow> exn + tick_result" where
  "update_rest flt hav h tk st =
     (let current_time = ticks_ms tk;
          st1 = st\<lparr>sensor := (sensor st)\<lparr>battery := battery_read tk\<rparr>\<rparr>
      in
      bind_exn (read_gps flt 3000 (gps_start tk) (gps_script tk)) (\<lambda>gps_result.
      let st2 = st1\<lparr>sensor := (sensor st1)\<lparr>gps := gps_result\<rparr>\<rparr> in
      bind_exn
        (if gps_fix_valid gps_result then
           bind_exn (is_close_to_home hav h gps_result) (\<lambda>_.
           bind_exn (case latitude gps_result of
                       None \<Rightarrow> Inl (KeyError ''latitude'') | Some lat \<Rightarrow> Inr lat) (\<lambda>lat.
           bind_exn (case longitude gps_result of
                       None \<Rightarrow> Inl (KeyError ''longitude'') | Some lon \<Rightarrow> Inr lon) (\<lambda>lon.
           bind_exn (calculate_distance_feet hav lat lon (HOME_LAT h) (HOME_LON h)) (\<lambda>_.
             Inr ()))))
         else Inr ()) (\<lambda>_.
      bind_exn (if gps_fix_valid gps_result
                then is_close_to_home hav h gps_result else Inr False) (\<lambda>close_to_home.
      bind_exn (update_wifi close_to_home tk st2) (\<lambda>(st3, wifi_tr).
      case log_sensor_data hav h (sd_files tk) (log_ticks_ms tk) (wall_time tk) (local_date tk)
             (cleanup_ticks_ms tk) st3 of
        (st4, tr) \<Rightarrow>
          Inr (Updated (st4\<lparr>sensor := (sensor st4)\<lparr>last_update := current_time\<rparr>\<rparr>)
                 (wifi_tr @ tr)))))))"

text \<open>\<open>update_sensors\<close> after its time test (lines 698 to 766).\<close>

definition update_sensors_run ::
  "(string \<Rightarrow> real option) \<Rightarrow> haversine_term \<Rightarrow> home \<Rightarrow> tick \<Rightarrow> globals \<Rightarrow> exn + tick_result" where
  "update_sensors_run flt hav h tk st =
     (let current_time = ticks_ms tk;
          prev_engine_state = engine (sensor st);
          st1 = st\<lparr>sensor := (sensor st)\<lparr>engine := engine_is_on (pmu_status tk)\<rparr>\<rparr>
      in case track_engine_off current_time prev_engine_state (engine (sensor st1))
                (engine_off_time st1) of
           None \<Rightarrow>
             bind_exn (handle_shutdown_sequence hav h (sta tk) (sock tk) st1) (\<lambda>r.
               case r of (st2, tr) \<Rightarrow> Inr (Shut_down st2 tr))
         | Some off_time \<Rightarrow>
             update_rest flt hav h tk (st1\<lparr>engine_off_time := off_time\<rparr>))"

definition update_sensors ::
  "(string \<Rightarrow> real option) \<Rightarrow> haversine_term \<Rightarrow> home \<Rightarrow> tick \<Rightarrow> globals \<Rightarrow> exn + tick_result" where
  "update_sensors flt hav h tk st =
     (if ticks_diff (ticks_ms tk) (last_update (sensor st)) < SENSOR_UPDATE_INTERVAL
      then Inr (Skipped st)
      else update_sensors_run flt hav h tk st)"

section \<open>The main loop\<close>

text \<open>
  \<open>init_sd_card\<close>: mounting and the write test are one outside call; any exception
  gives \<open>False\<close>.
\<close>

definition init_sd_card :: "unit outcome \<Rightarrow> bool" where
  "init_sd_card r = (case r of Raises e \<Rightarrow> False | Returns _ \<Rightarrow> True)"

text \<open>
  The calls of \<open>update_sensors\<close> of one run, one per element of the list, from the state
  \<open>st\<close>: the events, and whether the run ended in deep sleep. After the deep sleep
  there is no further call: the device resets. The rendering of \<open>update_display\<close> is not
  modelled.
\<close>

fun run_ticks ::
  "(string \<Rightarrow> real option) \<Rightarrow> haversine_term \<Rightarrow> home \<Rightarrow> tick list \<Rightarrow> globals
     \<Rightarrow> exn + (event list \<times> bool)" where
  "run_ticks flt hav h [] st = Inr ([], False)"
| "run_ticks flt hav h (tk # tks) st =
     (case update_sensors flt hav h tk st of
        Inl e \<Rightarrow> Inl e
      | Inr (Skipped st') \<Rightarrow> run_ticks flt hav h tks st'
      | Inr (Updated st' tr) \<Rightarrow>
          (case run_ticks flt hav h tks st' of
             Inl e \<Rightarrow> Inl e
           | Inr (tr', slept) \<Rightarrow> Inr (tr @ tr', slept))
      | Inr (Shut_down st' tr) \<Rightarrow> Inr (tr, True))"

text \<open>
  The state in which the next call of \<open>update_sensors\<close> is made, after the calls of the
  list have returned without a shutdown; \<open>None\<close> when one of them raised or shut down.
  These are the states the module-level variables can be in when \<open>update_sensors\<close>, and
  through it \<open>handle_shutdown_sequence\<close>, is called.
\<close>

fun state_after ::
  "(string \<Rightarrow> real option) \<Rightarrow> haversine_term \<Rightarrow> home \<Rightarrow> tick list \<Rightarrow> globals
     \<Rightarrow> globals option" where
  "state_after flt hav h [] st = Some st"
| "state_after flt hav h (tk # tks) st =
     (case update_sensors flt hav h tk st of
        Inl e \<Rightarrow> None
      | Inr (Skipped st') \<Rightarrow> state_after flt hav h tks st'
      | Inr (Updated st' tr) \<Rightarrow> state_after flt hav h tks st'
      | Inr (Shut_down st' tr) \<Rightarrow> None)"

text \<open>
  \<open>main\<close>, for the outcome of the SD card initialisation and the ticks of the run. The
  flag \<open>sd_available\<close> decides one line of the start screen and nothing else. The display
  calls of \<open>init_display\<close> are not modelled.
\<close>

definition main ::
  "(string \<Rightarrow> real option) \<Rightarrow> haversine_term \<Rightarrow> home \<Rightarrow> unit outcome \<Rightarrow> tick list
     \<Rightarrow> exn + (event list \<times> bool)" where
  "main flt hav h sd_card tks =
     (let sd_available = init_sd_card sd_card;
          tr0 = [Lcd_clear 0, Lcd_setTextColor 0xFFFF 0,
                 Lcd_setCursor 100 100, Lcd_print ''VAN MONITOR'',
                 Lcd_setCursor 110 120, Lcd_print ''Starting...''] @
                (if sd_available then [Lcd_setCursor 100 140, Lcd_print ''SD: Ready''] else []) @
                [Sleep_ms 2000]
      in case run_ticks flt hav h tks globals_init of
           Inl e \<Rightarrow> Inl e
         | Inr (tr, slept) \<Rightarrow> Inr (tr0 @ tr, slept))"

section \<open>Example environments\<close>

text \<open>
  Environments for the concrete runs below: a station interface that is present and
  never connected, one that is connected, one on which every call raises, a socket
  whose connection fails, an SD card that is not there, a tick at time \<open>t\<close> with the
  status register \<open>status\<close>, no GPS line and no battery reading, and the same tick with
  one line from the GPS receiver.
\<close>

definition wlan_down :: wlan where
  "wlan_down = \<lparr>WLAN_new = Returns (), set_active = Returns (),
     isconnected = (\<lambda>n. Returns False), connect = Returns ()\<rparr>"

definition wlan_up :: wlan where
  "wlan_up = \<lparr>WLAN_new = Returns (), set_active = Returns (),
     isconnected = (\<lambda>n. Returns True), connect = Returns ()\<rparr>"

definition wlan_broken :: wlan where
  "wlan_broken = \<lparr>WLAN_new = Returns (), set_active = Raises (OSError ''Wifi Internal Error''),
     isconnected = (\<lambda>n. Raises (OSError ''Wifi Internal Error'')),
     connect = Raises (OSError ''Wifi Internal Error'')\<rparr>"

definition ftp_down :: ftp where
  "ftp_down = \<lparr>socket_new = Returns (), sock_connect = Raises (OSError ''EHOSTUNREACH''),
     recv = (\<lambda>n. Raises (OSError ''ENOTCONN'')), send = (\<lambda>n. Raises (OSError ''ENOTCONN'')),
     listdir = Raises (OSError ''ENOENT''), sock_close = Returns ()\<rparr>"

definition no_sd_card :: files where
  "no_sd_card = \<lparr>load = (\<lambda>name. Raises (OSError ''ENOENT'')),
     dump = (\<lambda>name logs. Raises (OSError ''ENOENT'')),
     cleanup = Raises (OSError ''ENOENT'')\<rparr>"

definition idle_tick :: "int \<Rightarrow> nat \<Rightarrow> tick" where
  "idle_tick t status =
     \<lparr>ticks_ms = t, pmu_status = Returns status, battery_read = None, gps_start = t,
      gps_script = [], sta = wlan_down, sta_is_active = Returns False, sock = ftp_down,
      sd_files = no_sd_card, log_ticks_ms = t, cleanup_ticks_ms = t,
      wall_time = 1793750400, local_date = (2026, 11, 4)\<rparr>"

definition gps_tick :: "int \<Rightarrow> nat \<Rightarrow> string \<Rightarrow> tick" where
  "gps_tick t status line = (idle_tick t status)\<lparr>gps_script := [(t, Returns (Some line))]\<rparr>"

text \<open>The state with the engine off since tick \<open>t0\<close> and the last update at \<open>u\<close>.\<close>

definition engine_off_since :: "int \<Rightarrow> int \<Rightarrow> globals" where
  "engine_off_since t0 u =
     globals_init\<lparr>sensor := (sensor globals_init)\<lparr>last_update := u\<rparr>,
                  engine_off_time := Some t0\<rparr>"

text \<open>
  A home, and the state after one update with the engine on that has read a fix at that
  home from the sentence
  \<open>$GPRMC,123519,A,4807.038,N,01131.000,E,022.4,084.4,230394,003.1,W,A*6A\<close>.
\<close>

definition example_home :: home where
  "example_home = \<lparr>HOME_LAT = 48.1173, HOME_LON = 691 / 60\<rparr>"

definition state_fix_at_home :: globals where
  "state_fix_at_home =
     \<lparr>sensor = \<lparr>engine = True, battery = None, wifi = False,
        gps = \<lparr>gps_fix_valid = True, satellites = 0, latitude = Some 48.1173,
               longitude = Some (691 / 60), speed = Some 41.4848,
               time = Some ''12:35:19'', error = None\<rparr>,
        last_update = 6000\<rparr>,
      last_wifi_attempt = 0, engine_off_time = None, is_shutting_down = False,
      last_log_time = 0, last_cleanup_time = 0\<rparr>"

section \<open>Properties of the distance computation\<close>

lemma haversine_a_sym: "haversine_a lat1 lon1 lat2 lon2 = haversine_a lat2 lon2 lat1 lon1"
proof -
  have s: "sin (radians (x - y) / 2) * sin (radians (x - y) / 2)
         = sin (radians (y - x) / 2) * sin (radians (y - x) / 2)" for x y :: real
  proof -
    have "radians (x - y) / 2 = - (radians (y - x) / 2)"
      by (simp add: radians_def field_simps)
    then show ?thesis by (simp only: sin_minus)
  qed
  show ?thesis
    unfolding haversine_a_def Let_def
    using s [of lat2 lat1] s [of lon2 lon1]
    by (simp add: mult.assoc mult.left_commute)
qed

lemma haversine_a_same: "haversine_a lat lon lat lon = 0"
  by (simp add: haversine_a_def radians_def)

text \<open>
  The haversine term is a convex combination of two values in \<open>[0, 1]\<close>, so neither
  square root of \<open>calculate_distance_feet\<close> can raise.
\<close>

lemma haversine_a_alt:
  "haversine_a lat1 lon1 lat2 lon2 =
     (1 - cos (radians lat2 - radians lat1)) / 2 * (1 - (sin (radians (lon2 - lon1) / 2))\<^sup>2)
     + (1 + cos (radians lat2 + radians lat1)) / 2 * (sin (radians (lon2 - lon1) / 2))\<^sup>2"
proof -
  have d: "radians (lat2 - lat1) = radians lat2 - radians lat1"
    by (simp add: radians_def field_simps)
  have h: "sin (x / 2) * sin (x / 2) = (1 - cos x) / 2" for x :: real
    using cos_double [of "x / 2"] sin_cos_squared_add [of "x / 2"]
    by (simp add: power2_eq_square)
  have c: "cos (radians lat1) * cos (radians lat2)
        = (cos (radians lat2 - radians lat1) + cos (radians lat2 + radians lat1)) / 2"
    using cos_times_cos [of "radians lat2" "radians lat1"] by (simp add: mult.commute)
  show ?thesis
    unfolding haversine_a_def Let_def d h c
    by (simp add: power2_eq_square field_simps h)
qed

lemma haversine_a_bounds:
  "0 \<le> haversine_a lat1 lon1 lat2 lon2 \<and> haversine_a lat1 lon1 lat2 lon2 \<le> 1"
proof -
  define s where "s = (sin (radians (lon2 - lon1) / 2))\<^sup>2"
  define p where "p = (1 - cos (radians lat2 - radians lat1)) / 2"
  define q where "q = (1 + cos (radians lat2 + radians lat1)) / 2"
  have s: "0 \<le> s" "s \<le> 1"
    unfolding s_def by (simp_all add: abs_square_le_1 power2_eq_square [symmetric])
  have cb: "0 \<le> (1 - cos x) / 2 \<and> (1 - cos x) / 2 \<le> 1 \<and> 0 \<le> (1 + cos x) / 2 \<and> (1 + cos x) / 2 \<le> 1"
    for x :: real
    using cos_ge_minus_one [of x] cos_le_one [of x] by argo
  have p: "0 \<le> p \<and> p \<le> 1" unfolding p_def
    using cb [of "radians lat2 - radians lat1"] by simp
  have q: "0 \<le> q \<and> q \<le> 1" unfolding q_def
    using cb [of "radians lat2 + radians lat1"] by simp
  have a: "haversine_a lat1 lon1 lat2 lon2 = p * (1 - s) + q * s"
    unfolding s_def p_def q_def by (rule haversine_a_alt)
  have lo: "0 \<le> p * (1 - s) + q * s" using s p q by simp
  have "p * (1 - s) \<le> 1 * (1 - s)" using s p by (intro mult_right_mono) simp_all
  moreover have "q * s \<le> 1 * s" using s q by (intro mult_right_mono) simp_all
  ultimately have hi: "p * (1 - s) + q * s \<le> 1" by simp
  show ?thesis using a lo hi by simp
qed

text \<open>Whether \<open>calculate_distance_feet\<close> raises is decided by the computed term alone.\<close>

lemma calculate_distance_feet_raises:
  "hav lat1 lon1 lat2 lon2 < 0 \<or> 1 < hav lat1 lon1 lat2 lon2
   \<Longrightarrow> calculate_distance_feet hav lat1 lon1 lat2 lon2 = Inl (ValueError ''math domain error'')"
  by (auto simp: calculate_distance_feet_def math_sqrt_def Let_def)

lemma calculate_distance_feet_returns:
  "0 \<le> hav lat1 lon1 lat2 lon2 \<Longrightarrow> hav lat1 lon1 lat2 lon2 \<le> 1
   \<Longrightarrow> \<exists>d. calculate_distance_feet hav lat1 lon1 lat2 lon2 = Inr d"
  by (simp add: calculate_distance_feet_def math_sqrt_def Let_def)

text \<open>
  In exact arithmetic the function returns for every pair, is symmetric, and is 0 from
  a point to itself.
\<close>

lemma calculate_distance_feet_exact_total:
  "\<exists>d. calculate_distance_feet haversine_a lat1 lon1 lat2 lon2 = Inr d"
  using haversine_a_bounds [of lat1 lon1 lat2 lon2]
  by (simp add: calculate_distance_feet_returns)

lemma calculate_distance_feet_exact_symmetric:
  "calculate_distance_feet haversine_a lat1 lon1 lat2 lon2
     = calculate_distance_feet haversine_a lat2 lon2 lat1 lon1"
  by (simp add: calculate_distance_feet_def haversine_a_sym [of lat1 lon1 lat2 lon2])

lemma calculate_distance_feet_same:
  "calculate_distance_feet haversine_a lat lon lat lon = Inr 0"
  by (simp add: calculate_distance_feet_def haversine_a_same math_sqrt_def atan2_def)

text \<open>
  C8, at a failing input: the position (-30.3333, 17.4113) and its antipode
  (30.3333, -162.5887). In double arithmetic the haversine term is \<open>1 + 2^-52\<close> in
  either order, \<open>1 - a\<close> is negative, and \<open>math.sqrt\<close> raises \<open>ValueError\<close>: no distance is
  returned in either order. The lemmas above are what holds in exact arithmetic.
\<close>

theorem calculate_distance_feet_raises_at_antipode:
  "calculate_distance_feet hav_double (- 30.3333) 17.4113 30.3333 (- 162.5887)
     = Inl (ValueError ''math domain error'')
   \<and> calculate_distance_feet hav_double 30.3333 (- 162.5887) (- 30.3333) 17.4113
     = Inl (ValueError ''math domain error'')"
  by (simp add: calculate_distance_feet_raises hav_double_def)

section \<open>The proximity test\<close>

lemma is_close_to_home_invalid_or_absent:
  "\<not> gps_fix_valid g \<or> latitude g = None \<or> longitude g = None
     \<Longrightarrow> is_close_to_home hav h g = Inr False"
  by (auto simp: is_close_to_home_def is_close_to_home_with_def)

lemma is_close_to_home_nonzero:
  "gps_fix_valid g \<Longrightarrow> latitude g = Some lat \<Longrightarrow> longitude g = Some lon
   \<Longrightarrow> lat \<noteq> 0 \<Longrightarrow> lon \<noteq> 0
   \<Longrightarrow> calculate_distance_feet hav lat lon (HOME_LAT h) (HOME_LON h) = Inr d
   \<Longrightarrow> is_close_to_home hav h g = Inr (d \<le> HOME_RADIUS_FT)"
  by (simp add: is_close_to_home_def is_close_to_home_with_def)

text \<open>
  C6, at a failing input: the home is on the prime meridian and the fix is valid and
  exactly at home. The distance is 0, within the radius, and \<open>is_close_to_home\<close> returns
  \<open>False\<close>, because the longitude \<open>0.0\<close> is false in \<open>not gps_data.get("longitude")\<close>.
  The two lemmas above are the part of the claim that holds: an invalid fix or a missing
  coordinate gives \<open>False\<close>, and coordinates other than 0 give the distance test.
\<close>

theorem is_close_to_home_misses_fix_at_home:
  "is_close_to_home hav \<lparr>HOME_LAT = 51.4779, HOME_LON = 0\<rparr>
      (gps_data_init\<lparr>gps_fix_valid := True, latitude := Some 51.4779, longitude := Some 0\<rparr>)
     = Inr False
   \<and> calculate_distance_feet haversine_a 51.4779 0 51.4779 0 = Inr 0
   \<and> (0::real) \<le> HOME_RADIUS_FT"
  by (simp add: is_close_to_home_def is_close_to_home_with_def gps_data_init_def
      calculate_distance_feet_same HOME_RADIUS_FT_def)

text \<open>
  C10: for a valid fix whose latitude or longitude is exactly 0, \<open>is_close_to_home\<close>
  returns \<open>False\<close> whatever the distance function would do, so no distance is computed.
\<close>

theorem is_close_to_home_zero_coordinate:
  "gps_fix_valid g \<Longrightarrow> latitude g = Some 0 \<or> longitude g = Some 0
     \<Longrightarrow> is_close_to_home_with distance_fn h g = Inr False"
  by (auto simp: is_close_to_home_with_def)

theorem is_close_to_home_zero_coordinate_witness:
  "gps_fix_valid (gps_data_init\<lparr>gps_fix_valid := True, latitude := Some 0, longitude := Some 11.5\<rparr>)
   \<and> latitude (gps_data_init\<lparr>gps_fix_valid := True, latitude := Some 0, longitude := Some 11.5\<rparr>)
       = Some 0
   \<and> is_close_to_home_with (\<lambda>lat1 lon1 lat2 lon2. Inl (ValueError ''not called''))
         \<lparr>HOME_LAT = 0, HOME_LON = 11.5\<rparr>
         (gps_data_init\<lparr>gps_fix_valid := True, latitude := Some 0, longitude := Some 11.5\<rparr>)
       = Inr False"
  using is_close_to_home_zero_coordinate
    [of "gps_data_init\<lparr>gps_fix_valid := True, latitude := Some 0, longitude := Some 11.5\<rparr>"
        "\<lambda>lat1 lon1 lat2 lon2. Inl (ValueError ''not called'')"
        "\<lparr>HOME_LAT = 0, HOME_LON = 11.5\<rparr>"]
  by (simp add: gps_data_init_def)

section \<open>Evaluation of concrete runs\<close>

lemma bind_exn_simps [simp]:
  "bind_exn (Inl e) f = Inl e" "bind_exn (Inr x) f = f x"
  by (simp_all add: bind_exn_def)

lemmas eval_gps = read_gps_def read_gps_try_def handle_line_def handle_line_try_def
  decode_ascii_def strip_def is_space_def startswith_def rmc_line_def rmc_try_def gga_line_def
  ticks_diff_def ticks_diff_mod_def TICKS_PERIOD_def float_call_def decimal_float_def
  is_digit_char_def int_of_digits_def digit_val_def isdigit_def gps_data_init_def rmc_speed_def
  bind_exn_def Let_def

lemma engine_is_on_examples:
  "engine_is_on (Returns 32) = True" "engine_is_on (Returns 0) = False"
  by (simp_all add: engine_is_on_def bit_iff_odd)

lemmas eval_tick = update_sensors_def update_sensors_run_def update_rest_def update_wifi_def
  wifi_retry_def wifi_quick_check_def track_engine_off_def engine_is_on_examples
  idle_tick_def gps_tick_def engine_off_since_def globals_init_def wlan_down_def ftp_down_def
  no_sd_card_def log_sensor_data_def log_sensor_data_run_def log_sensor_data_try_def
  cleanup_old_logs_def cleanup_old_logs_run_def call_def
  SENSOR_UPDATE_INTERVAL_def SHUTDOWN_DELAY_def LOG_INTERVAL_def WIFI_RETRY_INTERVAL_def
  CLEANUP_INTERVAL_def SD_MOUNT_PATH_def get_date_string_def zero_pad_def digit_char_def

lemma check_wifi_examples:
  "check_wifi wlan_down = Inr (False, replicate 10 (Sleep_ms 1000))"
  "check_wifi wlan_broken = Inr (False, [])"
  "check_wifi wlan_up = Inr (True, [])"
  by (simp_all add: check_wifi_def check_wifi_try_def wlan_down_def wlan_broken_def
      wlan_up_def eval_nat_numeral)

lemma upload_files_ftp_down: "upload_files_ftp ftp_down = Inr False"
  by (simp add: upload_files_ftp_def upload_files_ftp_try_def ftp_down_def call_def)

lemma is_close_to_home_at_home:
  "gps_fix_valid g \<Longrightarrow> latitude g = Some lat \<Longrightarrow> longitude g = Some lon
   \<Longrightarrow> lat \<noteq> 0 \<Longrightarrow> lon \<noteq> 0
   \<Longrightarrow> is_close_to_home haversine_a \<lparr>HOME_LAT = lat, HOME_LON = lon\<rparr> g = Inr True"
  by (simp add: is_close_to_home_def is_close_to_home_with_def
      calculate_distance_feet_same HOME_RADIUS_FT_def)

section \<open>The shutdown sequence\<close>

lemma check_wifi_total: "\<exists>c tr. check_wifi w = Inr (c, tr)"
  by (cases "check_wifi_try w"; cases "snd (check_wifi_try w)") (auto simp: check_wifi_def)

lemma upload_files_ftp_total: "\<exists>ok. upload_files_ftp f = Inr ok"
  by (cases "upload_files_ftp_try f") (auto simp: upload_files_ftp_def)

text \<open>
  At the level of the function alone: the sequence reaches the deep sleep when its
  proximity test returns, and an exception of the proximity test leaves it.
\<close>

lemma handle_shutdown_sequence_returns:
  assumes "proximity_returns hav h st"
  shows "\<exists>st' tr. handle_shutdown_sequence hav h w f st = Inr (st', tr @ enter_deep_sleep)
     \<and> last (tr @ enter_deep_sleep) = Deepsleep DEEP_SLEEP_INTERVAL
     \<and> is_shutting_down st'"
proof -
  define tr0 where "tr0 = [Lcd_clear 0, Lcd_setTextColor 0xFFE0 0,
                 Lcd_setCursor 70 80, Lcd_print ''SHUTTING DOWN'',
                 Lcd_setCursor 60 100, Lcd_print ''Checking WiFi...'']"
  have l: "last (tr @ enter_deep_sleep) = Deepsleep DEEP_SLEEP_INTERVAL" for tr
    by (simp add: enter_deep_sleep_def)
  obtain close where c: "(if gps_fix_valid (gps (sensor st))
        then is_close_to_home hav h (gps (sensor st)) else Inr False) = Inr close"
    using assms unfolding proximity_returns_def
    by (cases "if gps_fix_valid (gps (sensor st))
        then is_close_to_home hav h (gps (sensor st)) else Inr False") auto
  obtain connected wtr where w: "check_wifi w = Inr (connected, wtr)"
    using check_wifi_total by blast
  obtain ok where u: "upload_files_ftp f = Inr ok"
    using upload_files_ftp_total by blast
  have "\<exists>tr1. handle_shutdown_sequence hav h w f st
          = Inr (st\<lparr>is_shutting_down := True\<rparr>, (tr0 @ tr1) @ enter_deep_sleep)"
    unfolding handle_shutdown_sequence_def Let_def tr0_def [symmetric]
    using c
    by (cases "gps_fix_valid (gps (sensor st))"; cases close; cases connected)
       (simp_all add: w u)
  then obtain tr1 where "handle_shutdown_sequence hav h w f st
          = Inr (st\<lparr>is_shutting_down := True\<rparr>, (tr0 @ tr1) @ enter_deep_sleep)" ..
  moreover have "is_shutting_down (st\<lparr>is_shutting_down := True\<rparr>)" by simp
  ultimately show ?thesis using l [of "tr0 @ tr1"] by blast
qed

lemma handle_shutdown_sequence_propagates:
  "gps_fix_valid (gps (sensor st)) \<Longrightarrow> is_close_to_home hav h (gps (sensor st)) = Inl e
   \<Longrightarrow> handle_shutdown_sequence hav h w f st = Inl e"
  by (simp add: handle_shutdown_sequence_def)

text \<open>
  Every valid fix that \<open>update_sensors\<close> stores has passed the same proximity test at
  line 737, so the test returns in every state in which the sequence can be called.
\<close>

lemma update_wifi_gps:
  "update_wifi c tk st = Inr (st', tr) \<Longrightarrow> gps (sensor st') = gps (sensor st)"
  by (auto simp: update_wifi_def wifi_retry_def wifi_quick_check_def bind_exn_def
      split: if_splits sum.splits prod.splits)

lemma cleanup_old_logs_gps:
  "gps (sensor (fst (cleanup_old_logs fs t st))) = gps (sensor st)"
  by (simp add: cleanup_old_logs_def cleanup_old_logs_run_def split: outcome.splits)

lemma log_sensor_data_gps:
  "gps (sensor (fst (log_sensor_data hav h fs t ts d ct st))) = gps (sensor st)"
proof -
  have "gps (sensor (fst (cleanup_old_logs fs ct (st\<lparr>last_log_time := t\<rparr>)))) = gps (sensor st)"
    using cleanup_old_logs_gps [of fs ct "st\<lparr>last_log_time := t\<rparr>"] by simp
  then show ?thesis
    by (auto simp: log_sensor_data_def log_sensor_data_run_def split: prod.splits sum.splits)
qed

lemma update_rest_proximity:
  assumes "update_rest flt hav h tk st = Inr (Updated st' tr)"
  shows "proximity_returns hav h st'"
proof -
  obtain g where g: "read_gps flt 3000 (gps_start tk) (gps_script tk) = Inr g"
    using assms by (cases "read_gps flt 3000 (gps_start tk) (gps_script tk)")
      (simp_all add: update_rest_def Let_def)
  define st2 where "st2 = st\<lparr>sensor := (sensor st)\<lparr>battery := battery_read tk, gps := g\<rparr>\<rparr>"
  obtain close where c: "(if gps_fix_valid g then is_close_to_home hav h g else Inr False)
      = Inr close"
    using assms g
    by (cases "(if gps_fix_valid g then is_close_to_home hav h g else Inr False)")
       (auto simp: update_rest_def Let_def bind_exn_def split: sum.splits if_splits)
  obtain st3 wtr where w: "update_wifi close tk st2 = Inr (st3, wtr)"
    using assms g c unfolding st2_def
    by (cases "update_wifi close tk
          (st\<lparr>sensor := (sensor st)\<lparr>battery := battery_read tk, gps := g\<rparr>\<rparr>)")
       (auto simp: update_rest_def Let_def bind_exn_def split: sum.splits if_splits)
  have "gps (sensor st') = gps (sensor (fst (log_sensor_data hav h (sd_files tk) (log_ticks_ms tk)
        (wall_time tk) (local_date tk) (cleanup_ticks_ms tk) st3)))"
    using assms g c w unfolding st2_def
    by (auto simp: update_rest_def Let_def bind_exn_def split: sum.splits if_splits prod.splits)
  also have "\<dots> = gps (sensor st3)" by (rule log_sensor_data_gps)
  also have "\<dots> = gps (sensor st2)" using w by (rule update_wifi_gps)
  also have "\<dots> = g" by (simp add: st2_def)
  finally show ?thesis using c by (auto simp: proximity_returns_def split: if_splits)
qed

lemma update_rest_not_skipped: "update_rest flt hav h tk st \<noteq> Inr (Skipped st')"
  by (auto simp: update_rest_def Let_def bind_exn_def
      split: sum.splits prod.splits if_splits option.splits)

lemma update_sensors_run_not_skipped: "update_sensors_run flt hav h tk st \<noteq> Inr (Skipped st')"
  by (auto simp: update_sensors_run_def Let_def bind_exn_def update_rest_not_skipped
      split: option.splits sum.splits prod.splits)

lemma update_sensors_proximity:
  assumes "proximity_returns hav h st"
    and "update_sensors flt hav h tk st = Inr (Skipped st') \<or>
         (\<exists>tr. update_sensors flt hav h tk st = Inr (Updated st' tr))"
  shows "proximity_returns hav h st'"
proof (cases "ticks_diff (ticks_ms tk) (last_update (sensor st)) < SENSOR_UPDATE_INTERVAL")
  case True
  with assms show ?thesis by (auto simp: update_sensors_def)
next
  case False
  with assms(2) obtain tr where r: "update_sensors_run flt hav h tk st = Inr (Updated st' tr)"
    by (auto simp: update_sensors_def update_sensors_run_not_skipped)
  then obtain st0 where "update_rest flt hav h tk st0 = Inr (Updated st' tr)"
    by (auto simp: update_sensors_run_def Let_def bind_exn_def
        split: option.splits sum.splits prod.splits)
  then show ?thesis by (rule update_rest_proximity)
qed

lemma state_after_proximity:
  "proximity_returns hav h st \<Longrightarrow> state_after flt hav h tks st = Some st'
   \<Longrightarrow> proximity_returns hav h st'"
proof (induction tks arbitrary: st)
  case Nil
  then show ?case by simp
next
  case (Cons tk tks)
  from Cons.prems(2) obtain st1 where
    s: "update_sensors flt hav h tk st = Inr (Skipped st1) \<or>
         (\<exists>tr. update_sensors flt hav h tk st = Inr (Updated st1 tr))"
    and r: "state_after flt hav h tks st1 = Some st'"
    by (auto split: sum.splits tick_result.splits)
  from Cons.prems(1) s have "proximity_returns hav h st1" by (rule update_sensors_proximity)
  with r show ?case by (rule Cons.IH [rotated])
qed

lemma proximity_returns_init: "proximity_returns hav h globals_init"
  by (simp add: proximity_returns_def globals_init_def gps_data_init_def)

lemma proximity_returns_engine:
  "proximity_returns hav h (st\<lparr>sensor := (sensor st)\<lparr>engine := eng\<rparr>\<rparr>) = proximity_returns hav h st"
  by (simp add: proximity_returns_def)

text \<open>
  C1: in every state in which the program can call the shutdown sequence (the state
  after any calls of \<open>update_sensors\<close> that returned, with the engine flag of the current
  sample), the sequence raises nothing, whatever the Wi-Fi calls and the upload calls do
  (each may raise at any step), and it ends with the calls of \<open>enter_deep_sleep\<close>, the
  last of which is the deep sleep. The display calls are taken not to raise.
\<close>

theorem handle_shutdown_sequence_reaches_sleep:
  assumes "state_after flt hav h tks globals_init = Some st"
  shows "\<exists>st' tr. handle_shutdown_sequence hav h w f (st\<lparr>sensor := (sensor st)\<lparr>engine := eng\<rparr>\<rparr>)
            = Inr (st', tr @ enter_deep_sleep)
     \<and> last (tr @ enter_deep_sleep) = Deepsleep DEEP_SLEEP_INTERVAL
     \<and> is_shutting_down st'"
proof -
  have "proximity_returns hav h st"
    using proximity_returns_init assms by (rule state_after_proximity)
  then have "proximity_returns hav h (st\<lparr>sensor := (sensor st)\<lparr>engine := eng\<rparr>\<rparr>)"
    by (simp add: proximity_returns_engine)
  then show ?thesis by (rule handle_shutdown_sequence_returns)
qed

text \<open>
  The state after one update that reads a fix at home, with the engine on; then the
  sequence with the engine off, once with every Wi-Fi call raising and once with the
  Wi-Fi up and the connection to the FTP server failing. Both end in the deep sleep.
\<close>

lemma state_after_fix_at_home:
  "state_after decimal_float haversine_a example_home
      [gps_tick 6000 32
         ''$GPRMC,123519,A,4807.038,N,01131.000,E,022.4,084.4,230394,003.1,W,A*6A'']
      globals_init
   = Some state_fix_at_home"
  by (simp add: eval_tick eval_gps is_close_to_home_at_home calculate_distance_feet_same
      example_home_def state_fix_at_home_def)

theorem handle_shutdown_sequence_reaches_sleep_witness:
  "state_after decimal_float haversine_a example_home
      [gps_tick 6000 32
         ''$GPRMC,123519,A,4807.038,N,01131.000,E,022.4,084.4,230394,003.1,W,A*6A'']
      globals_init
   = Some state_fix_at_home
   \<and> handle_shutdown_sequence haversine_a example_home wlan_down ftp_down
       (state_fix_at_home\<lparr>sensor := (sensor state_fix_at_home)\<lparr>engine := False\<rparr>\<rparr>)
     = Inr (state_fix_at_home\<lparr>sensor := (sensor state_fix_at_home)\<lparr>engine := False\<rparr>,
                              is_shutting_down := True\<rparr>,
            ([Lcd_clear 0, Lcd_setTextColor 0xFFE0 0,
              Lcd_setCursor 70 80, Lcd_print ''SHUTTING DOWN'',
              Lcd_setCursor 60 100, Lcd_print ''Checking WiFi...'',
              Lcd_setCursor 50 120, Lcd_print ''Uploading data...'']
             @ replicate 10 (Sleep_ms 1000)
             @ [Lcd_setCursor 60 140, Lcd_print ''No WiFi'', Sleep_ms 1000])
            @ enter_deep_sleep)
   \<and> handle_shutdown_sequence haversine_a example_home wlan_up ftp_down
       (state_fix_at_home\<lparr>sensor := (sensor state_fix_at_home)\<lparr>engine := False\<rparr>\<rparr>)
     = Inr (state_fix_at_home\<lparr>sensor := (sensor state_fix_at_home)\<lparr>engine := False\<rparr>,
                              is_shutting_down := True\<rparr>,
            [Lcd_clear 0, Lcd_setTextColor 0xFFE0 0,
             Lcd_setCursor 70 80, Lcd_print ''SHUTTING DOWN'',
             Lcd_setCursor 60 100, Lcd_print ''Checking WiFi...'',
             Lcd_setCursor 50 120, Lcd_print ''Uploading data...'',
             Lcd_setCursor 60 140, Lcd_print ''Upload failed'', Sleep_ms 2000]
            @ enter_deep_sleep)"
  using handle_shutdown_sequence_reaches_sleep
          [OF state_after_fix_at_home, of wlan_down ftp_down False]
        state_after_fix_at_home
  by (simp add: handle_shutdown_sequence_def check_wifi_examples upload_files_ftp_down
      is_close_to_home_at_home example_home_def state_fix_at_home_def)

section \<open>Elapsed time\<close>

text \<open>
  The signed difference on a counter of period \<open>P\<close>: an elapsed time \<open>d\<close> below half
  the period is returned as \<open>d\<close>, whatever the start and whether or not the counter
  wrapped in between; one from half the period up to the period as \<open>d - P\<close>.
\<close>

lemma ticks_diff_mod_elapsed:
  "0 < P \<Longrightarrow> 0 \<le> d \<Longrightarrow> d < P \<Longrightarrow>
   ticks_diff_mod P (ticks_wrap P (t0 + d)) t0 = (if d + P div 2 < P then d else d - P)"
proof -
  assume P: "0 < P" and d: "0 \<le> d" "d < P"
  have h: "0 \<le> P div 2" "P div 2 < P" using P by auto
  have e: "((t0 + d) mod P - t0 + P div 2) mod P = (d + P div 2) mod P"
  proof -
    have "((t0 + d) mod P - t0 + P div 2) mod P = ((t0 + d) mod P + (P div 2 - t0)) mod P"
      by (simp add: algebra_simps)
    also have "\<dots> = ((t0 + d) + (P div 2 - t0)) mod P"
      by (rule mod_add_left_eq)
    also have "\<dots> = (d + P div 2) mod P" by (simp add: algebra_simps)
    finally show ?thesis .
  qed
  show ?thesis
  proof (cases "d + P div 2 < P")
    case True
    then have "(d + P div 2) mod P = d + P div 2"
      using d h by (intro mod_pos_pos_trivial) linarith+
    with True e show ?thesis by (simp add: ticks_diff_mod_def ticks_wrap_def)
  next
    case False
    then have b: "0 \<le> d + P div 2 - P" "d + P div 2 - P < P" using d h by linarith+
    have "(d + P div 2) mod P = (d + P div 2 - P) mod P"
      by (simp only: minus_mod_self2)
    also have "\<dots> = d + P div 2 - P"
      using b by (rule mod_pos_pos_trivial)
    finally have "(d + P div 2) mod P = d + P div 2 - P" .
    with False e show ?thesis by (simp add: ticks_diff_mod_def ticks_wrap_def)
  qed
qed

lemma ticks_diff_elapsed:
  assumes "0 \<le> d" "d < TICKS_PERIOD div 2"
  shows "ticks_diff (ticks_wrap TICKS_PERIOD (t0 + d)) t0 = d"
proof -
  have "0 < TICKS_PERIOD" "d < TICKS_PERIOD" "d + TICKS_PERIOD div 2 < TICKS_PERIOD"
    using assms by (simp_all add: TICKS_PERIOD_def)
  then show ?thesis
    using assms(1) ticks_diff_mod_elapsed [of TICKS_PERIOD d t0] by (simp add: ticks_diff_def)
qed

text \<open>A counter of \<open>W\<close> bits has the period \<open>2 ^ W\<close>, and \<open>W - 1\<close> is below half of it.\<close>

lemma ticks_diff_bit_width:
  assumes "0 < W"
  shows "ticks_diff_mod (2 ^ W) (ticks_wrap (2 ^ W) (t0 + (int W - 1))) t0 = int W - 1"
proof -
  obtain n where W: "W = Suc n" using assms by (cases W) auto
  have "n < 2 ^ n" by (rule less_exp)
  then have n: "int n < 2 ^ n" by (metis of_nat_less_iff of_nat_numeral of_nat_power)
  have p: "(0 :: int) < 2 ^ n" by simp
  have b: "int W - 1 + (2 ^ W) div 2 < (2 ^ W :: int)"
    using n by (simp add: W)
  have "int n < 2 * 2 ^ n"
    using n p by linarith
  then have b': "int W - 1 < (2 ^ W :: int)"
    by (simp add: W)
  have "(0 :: int) < 2 ^ W" "0 \<le> int W - 1" using assms by simp_all
  then show ?thesis
    using b b' ticks_diff_mod_elapsed [of "2 ^ W" "int W - 1" t0] by simp
qed

text \<open>
  With \<open>W\<close> read as the period itself, the difference after \<open>W - 1\<close> ticks is \<open>-1\<close>.
\<close>

lemma ticks_diff_full_period:
  "ticks_diff_mod TICKS_PERIOD (ticks_wrap TICKS_PERIOD (t0 + (TICKS_PERIOD - 1))) t0 = - 1"
  using ticks_diff_mod_elapsed [of TICKS_PERIOD "TICKS_PERIOD - 1" t0]
  by (simp add: TICKS_PERIOD_def)

text \<open>
  C5: for a counter of \<open>W\<close> bits, the difference between the counter \<open>W - 1\<close> ticks
  after \<open>t0\<close>, wrapped, and \<open>t0\<close> is \<open>W - 1\<close>, for every \<open>t0\<close>. And every elapsed-time
  comparison of the program is made on this difference: when \<open>d\<close> ticks, fewer than half
  the period, have passed since the stored time \<open>t0\<close>, each of the seven tests (the
  identity of \<open>ticks_diff\<close>, the read window of \<open>read_gps\<close>, the sensor interval, the
  shutdown delay, the Wi-Fi retry interval, the log interval and the cleanup interval)
  compares \<open>d\<close> itself with its bound, also when the counter has wrapped and the current
  tick is the smaller number.
\<close>

theorem ticks_diff_wraparound_safe:
  "(0 < W \<longrightarrow>
      ticks_diff_mod (2 ^ W) (ticks_wrap (2 ^ W) (t0 + (int W - 1))) t0 = int W - 1)
   \<and> (0 \<le> d \<and> d < TICKS_PERIOD div 2 \<longrightarrow>
        ticks_diff (ticks_wrap TICKS_PERIOD (t0 + d)) t0 = d
      \<and> read_gps_loop flt t0 timeout
            ((ticks_wrap TICKS_PERIOD (t0 + d), Returns None) # script) rg
          = (if d < timeout then read_gps_loop flt t0 timeout script rg
             else Inr (rg_gps_data rg))
      \<and> (last_update (sensor st) = t0 \<and> ticks_ms tk = ticks_wrap TICKS_PERIOD (t0 + d) \<longrightarrow>
            update_sensors flt hav h tk st
              = (if d < SENSOR_UPDATE_INTERVAL then Inr (Skipped st)
                 else update_sensors_run flt hav h tk st))
      \<and> (t0 \<noteq> 0 \<longrightarrow>
            track_engine_off (ticks_wrap TICKS_PERIOD (t0 + d)) False False (Some t0)
              = (if d > SHUTDOWN_DELAY then None else Some (Some t0)))
      \<and> (last_wifi_attempt st = t0 \<and> ticks_ms tk = ticks_wrap TICKS_PERIOD (t0 + d) \<longrightarrow>
            update_wifi True tk st
              = (if d > WIFI_RETRY_INTERVAL then wifi_retry tk st
                 else wifi_quick_check tk st))
      \<and> (last_log_time st = t0 \<longrightarrow>
            log_sensor_data hav h fs (ticks_wrap TICKS_PERIOD (t0 + d)) ts date ct st
              = (if d < LOG_INTERVAL then (st, [])
                 else log_sensor_data_run hav h fs (ticks_wrap TICKS_PERIOD (t0 + d))
                        ts date ct st))
      \<and> (last_cleanup_time st = t0 \<longrightarrow>
            cleanup_old_logs fs (ticks_wrap TICKS_PERIOD (t0 + d)) st
              = (if d < CLEANUP_INTERVAL then (st, [])
                 else cleanup_old_logs_run fs (ticks_wrap TICKS_PERIOD (t0 + d)) st)))"
proof (intro conjI impI)
  assume "0 < W"
  then show "ticks_diff_mod (2 ^ W) (ticks_wrap (2 ^ W) (t0 + (int W - 1))) t0 = int W - 1"
    by (rule ticks_diff_bit_width)
next
  assume "0 \<le> d \<and> d < TICKS_PERIOD div 2"
  then show e: "ticks_diff (ticks_wrap TICKS_PERIOD (t0 + d)) t0 = d"
    by (simp add: ticks_diff_elapsed)
  show "read_gps_loop flt t0 timeout
            ((ticks_wrap TICKS_PERIOD (t0 + d), Returns None) # script) rg
          = (if d < timeout then read_gps_loop flt t0 timeout script rg
             else Inr (rg_gps_data rg))"
    by (simp add: e)
  show "cleanup_old_logs fs (ticks_wrap TICKS_PERIOD (t0 + d)) st
              = (if d < CLEANUP_INTERVAL then (st, [])
                 else cleanup_old_logs_run fs (ticks_wrap TICKS_PERIOD (t0 + d)) st)"
    if "last_cleanup_time st = t0"
    using that by (simp add: cleanup_old_logs_def e)
  show "log_sensor_data hav h fs (ticks_wrap TICKS_PERIOD (t0 + d)) ts date ct st
              = (if d < LOG_INTERVAL then (st, [])
                 else log_sensor_data_run hav h fs (ticks_wrap TICKS_PERIOD (t0 + d))
                        ts date ct st)"
    if "last_log_time st = t0"
    using that by (simp add: log_sensor_data_def e)
  show "track_engine_off (ticks_wrap TICKS_PERIOD (t0 + d)) False False (Some t0)
              = (if d > SHUTDOWN_DELAY then None else Some (Some t0))"
    if "t0 \<noteq> 0"
    using that by (simp add: track_engine_off_def e)
  show "update_sensors flt hav h tk st
              = (if d < SENSOR_UPDATE_INTERVAL then Inr (Skipped st)
                 else update_sensors_run flt hav h tk st)"
    if "last_update (sensor st) = t0 \<and> ticks_ms tk = ticks_wrap TICKS_PERIOD (t0 + d)"
    using that by (simp add: update_sensors_def e)
  show "update_wifi True tk st
              = (if d > WIFI_RETRY_INTERVAL then wifi_retry tk st
                 else wifi_quick_check tk st)"
    if "last_wifi_attempt st = t0 \<and> ticks_ms tk = ticks_wrap TICKS_PERIOD (t0 + d)"
    using that by (simp add: update_wifi_def e)
qed

theorem ticks_diff_wraparound_safe_witness:
  "(0 :: nat) < 30
   \<and> ticks_diff_mod (2 ^ 30) (ticks_wrap (2 ^ 30) (1073741820 + (int 30 - 1))) 1073741820
       = int 30 - 1
   \<and> (0 :: int) \<le> 30001 \<and> (30001 :: int) < TICKS_PERIOD div 2
   \<and> ticks_wrap TICKS_PERIOD (1073741820 + 30001) = 29997
   \<and> ticks_diff 29997 1073741820 = 30001
   \<and> track_engine_off 29997 False False (Some 1073741820) = None
   \<and> cleanup_old_logs no_sd_card 29997 (globals_init\<lparr>last_cleanup_time := 1073741820\<rparr>)
       = (globals_init\<lparr>last_cleanup_time := 1073741820\<rparr>, [])"
  using ticks_diff_wraparound_safe
    [where W = 30 and ?t0.0 = 1073741820 and d = 30001 and fs = no_sd_card
       and st = "globals_init\<lparr>last_cleanup_time := 1073741820\<rparr>"]
  by (simp add: TICKS_PERIOD_def ticks_wrap_def SHUTDOWN_DELAY_def CLEANUP_INTERVAL_def)

section \<open>The GPS decoder\<close>

text \<open>
  C3, as stated, fails: the sentence has 12 comma-separated fields and \<open>read_gps\<close> decodes
  an RMC sentence only when it has at least 13, so the fix stays invalid.
\<close>

theorem read_gps_rmc_example_counterexample:
  "read_gps decimal_float 3000 0
      [(1, Returns (Some
         ''$GPRMC,123519,A,4807.038,N,01131.000,E,022.4,084.4,230394,003.1,W*6A''))]
    = Inr \<lparr>gps_fix_valid = False, satellites = 0, latitude = None, longitude = None,
           speed = None, time = None, error = None\<rparr>"
  by (simp add: eval_gps)

text \<open>
  C3, amended: read at any tick \<open>t0\<close> at which the window opens, the sentence of the
  claim gives no fix, and the same sentence with a thirteenth field (the mode indicator
  of NMEA 2.3) gives a valid fix with latitude 48.1173, longitude 11 + 31/60, which is
  within 0.0001 of 11.5167, the time 12:35:19 and the speed 22.4 * 1.852 = 41.4848 km/h.
\<close>

theorem read_gps_rmc_example:
  "read_gps decimal_float 3000 t0
      [(t0, Returns (Some
         ''$GPRMC,123519,A,4807.038,N,01131.000,E,022.4,084.4,230394,003.1,W*6A''))]
    = Inr \<lparr>gps_fix_valid = False, satellites = 0, latitude = None, longitude = None,
           speed = None, time = None, error = None\<rparr>
   \<and> read_gps decimal_float 3000 t0
      [(t0, Returns (Some
         ''$GPRMC,123519,A,4807.038,N,01131.000,E,022.4,084.4,230394,003.1,W,A*6A''))]
    = Inr \<lparr>gps_fix_valid = True, satellites = 0, latitude = Some 48.1173,
           longitude = Some (11 + 31 / 60), speed = Some (22.4 * 1.852),
           time = Some ''12:35:19'', error = None\<rparr>
   \<and> \<bar>(11 + 31 / 60) - 11.5167\<bar> < (0.0001 :: real) \<and> (22.4 * 1.852 :: real) > 1.0"
  by (simp add: eval_gps)

theorem read_gps_rmc_example_witness:
  "read_gps decimal_float 3000 0
      [(0, Returns (Some
         ''$GPRMC,123519,A,4807.038,N,01131.000,E,022.4,084.4,230394,003.1,W,A*6A''))]
    = Inr \<lparr>gps_fix_valid = True, satellites = 0, latitude = Some 48.1173,
           longitude = Some (11 + 31 / 60), speed = Some 41.4848,
           time = Some ''12:35:19'', error = None\<rparr>"
  using read_gps_rmc_example [of 0] by simp

lemma handle_line_try_raises:
  "handle_line_try flt line st = (st', Inl e) \<Longrightarrow>
     rg_gps_data st' = rg_gps_data st \<and> gprmc_found st' = gprmc_found st
     \<and> gpgga_found st' = gpgga_found st"
  by (auto simp: handle_line_try_def Let_def split: sum.splits if_splits)

text \<open>After a line that raised, the loop goes on with the next element of the script.\<close>

lemma read_gps_loop_skips:
  "handle_line_try flt line st = (st', Inl e) \<Longrightarrow> line \<noteq> []
   \<Longrightarrow> ticks_diff t start < timeout
   \<Longrightarrow> read_gps_loop flt start timeout ((t, Returns (Some line)) # script) st
       = read_gps_loop flt start timeout script st'"
  by (simp add: handle_line_def)

text \<open>An exception leaves the loop only when \<open>readline\<close> raised it.\<close>

lemma read_gps_loop_Inl:
  "read_gps_loop flt start timeout script st = Inl e \<Longrightarrow> \<exists>t. (t, Raises e) \<in> set script"
proof (induction script arbitrary: st)
  case Nil
  then show ?case by simp
next
  case (Cons p script)
  obtain t r where p: "p = (t, r)" by (cases p)
  show ?case
  proof (cases r)
    case (Raises e')
    with Cons.prems p show ?thesis by (auto split: if_splits)
  next
    case (Returns l)
    with Cons.prems p have "\<exists>st'. read_gps_loop flt start timeout script st' = Inl e"
      by (auto split: if_splits option.splits prod.splits bool.splits)
    with Cons.IH show ?thesis by auto
  qed
qed

text \<open>
  C4: \<open>read_gps\<close> returns a dictionary for every \<open>float\<close>, timeout, start and script; a
  line whose handling raises is skipped, and leaves the fix data and both flags as they
  were; and an exception of the transport gives the dictionary with
  \<open>gps_fix_valid = False\<close>, \<open>satellites = 0\<close> and the text of the exception under \<open>error\<close>.
\<close>

theorem read_gps_never_raises:
  "(\<exists>g. read_gps flt timeout start script = Inr g)
   \<and> (handle_line_try flt line st = (st', Inl e) \<longrightarrow>
        handle_line flt line st = (st', False)
        \<and> rg_gps_data st' = rg_gps_data st
        \<and> gprmc_found st' = gprmc_found st \<and> gpgga_found st' = gpgga_found st)
   \<and> (read_gps_try flt timeout start script = Inl e \<longrightarrow>
        read_gps flt timeout start script =
          Inr \<lparr>gps_fix_valid = False, satellites = 0, latitude = None, longitude = None,
               speed = None, time = None, error = Some (str_exn e)\<rparr>)"
proof (intro conjI impI)
  show "\<exists>g. read_gps flt timeout start script = Inr g"
    by (cases "read_gps_try flt timeout start script") (simp_all add: read_gps_def)
next
  assume h: "handle_line_try flt line st = (st', Inl e)"
  then show "handle_line flt line st = (st', False)" by (simp add: handle_line_def)
  from h show "rg_gps_data st' = rg_gps_data st" "gprmc_found st' = gprmc_found st"
    "gpgga_found st' = gpgga_found st"
    using handle_line_try_raises by blast+
next
  assume "read_gps_try flt timeout start script = Inl e"
  then show "read_gps flt timeout start script =
          Inr \<lparr>gps_fix_valid = False, satellites = 0, latitude = None, longitude = None,
               speed = None, time = None, error = Some (str_exn e)\<rparr>"
    by (simp add: read_gps_def gps_data_init_def)
qed

theorem read_gps_never_raises_witness:
  "handle_line_try decimal_float
      ''$GPRMC,123520,A,48x7.038,N,01131.000,E,022.4,084.4,230394,003.1,W,A*6A''
      \<lparr>rg_gps_data = gps_data_init\<lparr>gps_fix_valid := True, latitude := Some 48.1173\<rparr>,
       lines_processed = 1, gprmc_found = True, gpgga_found = False\<rparr>
     = (\<lparr>rg_gps_data = gps_data_init\<lparr>gps_fix_valid := True, latitude := Some 48.1173\<rparr>,
         lines_processed = 2, gprmc_found = True, gpgga_found = False\<rparr>,
        Inl (ValueError ''invalid syntax for number''))
   \<and> handle_line decimal_float
      ''$GPRMC,123520,A,48x7.038,N,01131.000,E,022.4,084.4,230394,003.1,W,A*6A''
      \<lparr>rg_gps_data = gps_data_init\<lparr>gps_fix_valid := True, latitude := Some 48.1173\<rparr>,
       lines_processed = 1, gprmc_found = True, gpgga_found = False\<rparr>
     = (\<lparr>rg_gps_data = gps_data_init\<lparr>gps_fix_valid := True, latitude := Some 48.1173\<rparr>,
         lines_processed = 2, gprmc_found = True, gpgga_found = False\<rparr>, False)
   \<and> read_gps_try decimal_float 3000 0
        [(1, Returns (Some
           ''$GPRMC,123519,A,4807.038,N,01131.000,E,022.4,084.4,230394,003.1,W,A*6A'')),
         (2, Raises (OSError ''ETIMEDOUT''))] = Inl (OSError ''ETIMEDOUT'')
   \<and> read_gps decimal_float 3000 0
        [(1, Returns (Some
           ''$GPRMC,123519,A,4807.038,N,01131.000,E,022.4,084.4,230394,003.1,W,A*6A'')),
         (2, Raises (OSError ''ETIMEDOUT''))]
       = Inr \<lparr>gps_fix_valid = False, satellites = 0, latitude = None, longitude = None,
               speed = None, time = None, error = Some ''ETIMEDOUT''\<rparr>"
  using read_gps_never_raises
    [of decimal_float 3000 0
        "[(1, Returns (Some
           ''$GPRMC,123519,A,4807.038,N,01131.000,E,022.4,084.4,230394,003.1,W,A*6A'')),
         (2, Raises (OSError ''ETIMEDOUT''))]"
        "''$GPRMC,123520,A,48x7.038,N,01131.000,E,022.4,084.4,230394,003.1,W,A*6A''"
        "\<lparr>rg_gps_data = gps_data_init\<lparr>gps_fix_valid := True, latitude := Some 48.1173\<rparr>,
         lines_processed = 1, gprmc_found = True, gpgga_found = False\<rparr>"
        "\<lparr>rg_gps_data = gps_data_init\<lparr>gps_fix_valid := True, latitude := Some 48.1173\<rparr>,
         lines_processed = 2, gprmc_found = True, gpgga_found = False\<rparr>"
        "ValueError ''invalid syntax for number''"]
  by (simp add: eval_gps)

text \<open>
  C7, as stated, fails at the boundary: a converted speed of exactly 1.0 km/h is not
  below 1.0, and it is replaced by 0.0, since the test of line 316 is \<open>speed_kmh > 1.0\<close>.
\<close>

theorem rmc_speed_boundary_counterexample:
  "(250 / 463 :: real) * 1.852 \<ge> 1.0 \<and> rmc_speed (250 / 463) \<noteq> (250 / 463) * 1.852"
  by (simp add: rmc_speed_def)

lemma bind_exn_Inr_iff: "bind_exn m f = Inr y \<longleftrightarrow> (\<exists>x. m = Inr x \<and> f x = Inr y)"
  by (cases m) (simp_all add: bind_exn_def)

lemma float_call_Some: "flt s = Some x \<Longrightarrow> float_call flt s = Inr x"
  by (simp add: float_call_def)

text \<open>
  C7, amended: when an RMC sentence is decoded and its speed field is not empty, the
  stored speed is the field in knots times 1.852 when that product is above 1.0 km/h,
  and exactly 0.0 when it is 1.0 km/h or below.
\<close>

theorem rmc_try_speed:
  "rmc_try flt time_str lat_str lat_dir lon_str lon_dir speed_str st = Inr st'
   \<Longrightarrow> length lat_str \<ge> 4 \<Longrightarrow> length lon_str \<ge> 5
   \<Longrightarrow> speed_str \<noteq> [] \<Longrightarrow> flt speed_str = Some speed_knots
   \<Longrightarrow> speed (rg_gps_data st') =
         Some (if speed_knots * 1.852 > 1.0 then speed_knots * 1.852 else 0.0)"
  by (auto simp: rmc_try_def bind_exn_Inr_iff float_call_Some rmc_speed_def Let_def)

theorem rmc_try_speed_witness:
  "rmc_try decimal_float ''123519'' ''4807.038'' ''N'' ''01131.000'' ''E'' ''000.5''
      \<lparr>rg_gps_data = gps_data_init, lines_processed = 1, gprmc_found = False,
       gpgga_found = False\<rparr>
     = Inr \<lparr>rg_gps_data = \<lparr>gps_fix_valid = True, satellites = 0, latitude = Some 48.1173,
                longitude = Some (691 / 60), speed = Some 0, time = Some ''12:35:19'',
                error = None\<rparr>,
            lines_processed = 1, gprmc_found = True, gpgga_found = False\<rparr>
   \<and> length ''4807.038'' \<ge> 4 \<and> length ''01131.000'' \<ge> 5 \<and> ''000.5'' \<noteq> []
   \<and> decimal_float ''000.5'' = Some 0.5
   \<and> speed (rg_gps_data
        \<lparr>rg_gps_data = \<lparr>gps_fix_valid = True, satellites = 0, latitude = Some 48.1173,
                longitude = Some (691 / 60), speed = Some 0, time = Some ''12:35:19'',
                error = None\<rparr>,
            lines_processed = 1, gprmc_found = True, gpgga_found = False\<rparr>)
       = Some (if (0.5 :: real) * 1.852 > 1.0 then 0.5 * 1.852 else 0.0)"
  using rmc_try_speed
    [of decimal_float "''123519''" "''4807.038''" "''N''" "''01131.000''" "''E''" "''000.5''"
        "\<lparr>rg_gps_data = gps_data_init, lines_processed = 1, gprmc_found = False,
          gpgga_found = False\<rparr>"
        "\<lparr>rg_gps_data = \<lparr>gps_fix_valid = True, satellites = 0, latitude = Some 48.1173,
                longitude = Some (691 / 60), speed = Some 0, time = Some ''12:35:19'',
                error = None\<rparr>,
            lines_processed = 1, gprmc_found = True, gpgga_found = False\<rparr>"
        "0.5"]
  by (simp add: eval_gps)

section \<open>The power state\<close>

text \<open>A false sample after a true one starts the timer at the current tick.\<close>

lemma track_engine_off_starts_timer:
  "track_engine_off t0 True False off_time = Some (Some t0)"
  by (simp add: track_engine_off_def)

text \<open>A true sample discards the timer, whatever the time.\<close>

lemma track_engine_off_engine_back:
  "track_engine_off current_time prev True off_time = Some None"
  by (simp add: track_engine_off_def)

text \<open>A timer that did not start at tick 0 triggers the shutdown once the delay is over.\<close>

lemma track_engine_off_triggers:
  "t0 \<noteq> 0 \<Longrightarrow> ticks_diff current_time t0 > SHUTDOWN_DELAY
     \<Longrightarrow> track_engine_off current_time False False (Some t0) = None"
  by (simp add: track_engine_off_def)

text \<open>The shutdown ends the run: no later tick is looked at.\<close>

lemma run_ticks_stops_at_shutdown:
  "update_sensors flt hav h tk st = Inr (Shut_down st' tr)
     \<Longrightarrow> run_ticks flt hav h (tk # tks) st = Inr (tr, True)"
  by simp

lemma update_sensors_shutdown_example:
  "update_sensors flt hav h (idle_tick 30002 0) (engine_off_since 1 25000)
   = Inr (Shut_down ((engine_off_since 1 25000)\<lparr>is_shutting_down := True\<rparr>)
       ([Lcd_clear 0, Lcd_setTextColor 0xFFE0 0,
         Lcd_setCursor 70 80, Lcd_print ''SHUTTING DOWN'',
         Lcd_setCursor 60 100, Lcd_print ''Checking WiFi...'',
         Lcd_setCursor 60 120, Lcd_print ''Away from home'', Sleep_ms 1000]
        @ enter_deep_sleep))"
  by (simp add: eval_tick eval_gps handle_shutdown_sequence_def)

text \<open>
  C2, at a failing input: the engine went off at tick 0, so \<open>engine_off_time\<close> is 0, the
  sample at tick 30001 is false and 30001 ms have passed, which is more than the delay.
  \<open>update_sensors\<close> does not shut down: it runs to its end and the timer stays as it was,
  because \<open>engine_off_time\<close> is tested for truth in line 713 and 0 is false. The lemmas
  above are the part of the claim that holds.
\<close>

theorem update_sensors_no_shutdown_at_tick_zero:
  "ticks_diff 30001 0 > SHUTDOWN_DELAY
   \<and> update_sensors flt hav h (idle_tick 30001 0) (engine_off_since 0 25000)
       = Inr (Updated (engine_off_since 0 30001) [])"
  by (simp add: eval_tick eval_gps)

section \<open>Logging without an SD card\<close>

lemma str_nat_date: "str_nat 2026 = ''2026''" "str_nat 11 = ''11''" "str_nat 4 = ''4''"
  by (simp_all add: str_nat.simps digit_char_def)

text \<open>
  C9, at a failing input: the SD card initialisation fails, and the run calls
  \<open>update_sensors\<close> at tick 3000 (too early for an update), at tick 60000 and at tick
  65000, with the engine on. Startup completes (no \<open>SD: Ready\<close> line), and each of the
  two updates opens the day's log file for reading and for writing; the second is a
  retry, since \<open>last_log_time\<close> has not moved.
\<close>

theorem main_logs_without_sd_card:
  "main flt hav h (Raises (OSError ''no SD card''))
      [idle_tick 3000 32, idle_tick 60000 32, idle_tick 65000 32]
   = Inr ([Lcd_clear 0, Lcd_setTextColor 0xFFFF 0,
           Lcd_setCursor 100 100, Lcd_print ''VAN MONITOR'',
           Lcd_setCursor 110 120, Lcd_print ''Starting...'', Sleep_ms 2000,
           Open_read ''/sd/van_log_2026-11-04.json'',
           Open_write ''/sd/van_log_2026-11-04.json'',
           Open_read ''/sd/van_log_2026-11-04.json'',
           Open_write ''/sd/van_log_2026-11-04.json''], False)"
  by (simp add: main_def init_sd_card_def eval_tick eval_gps str_nat_date)

end
